theory Spec2Isabelle
  imports Main
begin

section \<open>JavaScript values\<close>

text \<open>
  The scalar values a field of a parsed JSON request body can hold: absent
  (\<open>undefined\<close>), \<open>null\<close>, a boolean, an integer number or a string.  \<open>JNaN\<close> stands
  for a number that is not finite (\<open>NaN\<close>, \<open>Infinity\<close>); it only arises from arithmetic.
  Array- and object-valued request fields and non-integer numbers are outside the model.
\<close>

datatype jsval = JUndefined | JNull | JBool bool | JNum int | JStr string | JNaN

text \<open>Truthiness, as \<open>!x\<close>, \<open>x || y\<close> and \<open>x ? a : b\<close> read it.\<close>

fun truthy :: "jsval \<Rightarrow> bool" where
  "truthy JUndefined = False"
| "truthy JNull = False"
| "truthy (JBool b) = b"
| "truthy (JNum n) = (n \<noteq> 0)"
| "truthy (JStr s) = (s \<noteq> [])"
| "truthy JNaN = False"

text \<open>\<open>typeof x === "string"\<close>.\<close>

fun is_string :: "jsval \<Rightarrow> bool" where
  "is_string (JStr s) = True"
| "is_string _ = False"

text \<open>\<open>x ?? d\<close>: the default replaces \<open>undefined\<close> and \<open>null\<close> only.\<close>

fun nullish :: "jsval \<Rightarrow> jsval \<Rightarrow> jsval" where
  "nullish JUndefined d = d"
| "nullish JNull d = d"
| "nullish x d = x"

text \<open>A destructuring default \<open>{ x = d }\<close>: the default replaces \<open>undefined\<close> only.\<close>

fun destructure_default :: "jsval \<Rightarrow> jsval \<Rightarrow> jsval" where
  "destructure_default JUndefined d = d"
| "destructure_default x d = x"

text \<open>\<open>x || d\<close>.\<close>

definition or_else :: "jsval \<Rightarrow> jsval \<Rightarrow> jsval" where
  "or_else x d = (if truthy x then x else d)"

subsection \<open>Strings\<close>

text \<open>\<open>String.prototype.startsWith\<close> and \<open>String.prototype.includes\<close> (case sensitive).\<close>

fun startsWith :: "string \<Rightarrow> string \<Rightarrow> bool" where
  "startsWith s [] = True"
| "startsWith [] (c # cs) = False"
| "startsWith (x # xs) (c # cs) = (x = c \<and> startsWith xs cs)"

fun str_includes :: "string \<Rightarrow> string \<Rightarrow> bool" where
  "str_includes [] t = (t = [])"
| "str_includes (x # xs) t = (startsWith (x # xs) t \<or> str_includes xs t)"

subsection \<open>Decimal numerals\<close>

definition is_digit :: "char \<Rightarrow> bool" where
  "is_digit c = (c \<in> set ''0123456789'')"

definition digit_val :: "char \<Rightarrow> nat" where
  "digit_val c = of_char c - 48"

text \<open>The value of a string of decimal digits, most significant first.\<close>

definition digits_val :: "string \<Rightarrow> nat" where
  "digits_val s = foldl (\<lambda>acc c. 10 * acc + digit_val c) 0 s"

text \<open>
  An unsigned decimal numeral, \<open>[0-9]+\<close>, and a signed one, \<open>[-+]?[0-9]+\<close>: the strings
  validator.js's \<open>isInt\<close> accepts when \<open>allow_leading_zeroes\<close> is not switched off
  (server.js does not set it), so leading zeros are allowed.  \<open>Number\<close> reads such a
  string as the decimal value it spells.
\<close>

definition parse_nat :: "string \<Rightarrow> nat option" where
  "parse_nat s = (if s = [] \<or> \<not> list_all is_digit s then None else Some (digits_val s))"

fun parse_int :: "string \<Rightarrow> int option" where
  "parse_int [] = None"
| "parse_int (c # cs) =
     (if c = CHR ''-'' then map_option (\<lambda>n. - int n) (parse_nat cs)
      else if c = CHR ''+'' then map_option int (parse_nat cs)
      else map_option int (parse_nat (c # cs)))"

text \<open>\<open>String(n)\<close> for an integer.\<close>

fun show_nat :: "nat \<Rightarrow> string" where
  "show_nat n =
     (if n < 10 then [char_of (48 + n)]
      else show_nat (n div 10) @ [char_of (48 + n mod 10)])"

declare show_nat.simps [simp del]

definition show_int :: "int \<Rightarrow> string" where
  "show_int i = (if i < 0 then CHR ''-'' # show_nat (nat (- i)) else show_nat (nat i))"

text \<open>express-validator's \<open>toString\<close>, which every standard validator sees its value through.\<close>

fun js_toString :: "jsval \<Rightarrow> string" where
  "js_toString JUndefined = []"
| "js_toString JNull = []"
| "js_toString (JBool b) = (if b then ''true'' else ''false'')"
| "js_toString (JNum n) = show_int n"
| "js_toString (JStr s) = s"
| "js_toString JNaN = []"

section \<open>JSON documents and HTTP responses\<close>

datatype json = JV jsval | JArray "json list" | JObject "(string \<times> json) list"

record response =
  status :: nat
  body :: json

text \<open>Property access \<open>o.k\<close> on a JSON document; a missing key reads \<open>undefined\<close>.\<close>

fun get_prop :: "json \<Rightarrow> string \<Rightarrow> json" where
  "get_prop (JObject kvs) k = (case map_of kvs k of Some v \<Rightarrow> v | None \<Rightarrow> JV JUndefined)"
| "get_prop _ k = JV JUndefined"

text \<open>\<open>res.json(x)\<close> without a preceding \<open>res.status\<close> answers 200.\<close>

definition res_json :: "json \<Rightarrow> response" where
  "res_json b = \<lparr>status = 200, body = b\<rparr>"

definition res_status_json :: "nat \<Rightarrow> json \<Rightarrow> response" where
  "res_status_json s b = \<lparr>status = s, body = b\<rparr>"

text \<open>
  \<open>formatErrorResponse\<close> of server.js.  The first argument is the value of
  \<open>new Date().toISOString()\<close> when the response is built.
\<close>

definition formatErrorResponse :: "string \<Rightarrow> string \<Rightarrow> string \<Rightarrow> json \<Rightarrow> json" where
  "formatErrorResponse now code message details =
     JObject [(''success'', JV (JBool False)),
              (''error'', JObject [(''code'', JV (JStr code)),
                                   (''message'', JV (JStr message)),
                                   (''details'', details)]),
              (''timestamp'', JV (JStr now))]"

text \<open>The \<open>error.code\<close> of a response body, when it has one.\<close>

definition error_code :: "json \<Rightarrow> jsval" where
  "error_code b = (case get_prop (get_prop b ''error'') ''code'' of JV v \<Rightarrow> v | _ \<Rightarrow> JUndefined)"

section \<open>The downstream client\<close>

text \<open>
  A value thrown by a call of the \<open>@bankr/sdk\<close> client: an \<open>Error\<close> object with its
  message.  The handlers read nothing else of it.
\<close>

datatype raw_error = JsError (message: string)

text \<open>The argument object of \<open>promptAndWait\<close>.\<close>

record wait_args =
  arg_prompt :: jsval
  arg_walletAddress :: jsval
  arg_xmtp :: jsval
  arg_interval :: jsval
  arg_maxAttempts :: jsval
  arg_timeout :: jsval

text \<open>
  The amount handed to \<open>approve\<close>: a request value as it is (server.js), or a
  \<open>BigInt\<close> (the other two variants); \<open>undefined\<close> is \<open>AmountVal JUndefined\<close>.
\<close>

datatype amount_arg = AmountVal jsval | AmountBigInt int

text \<open>The network calls a handler makes, in order.\<close>

datatype call =
    CPrompt jsval jsval jsval
  | CGetJobStatus string
  | CPromptAndWait wait_args
  | CCheckAllowance string
  | CApprove jsval amount_arg

text \<open>
  The client object: one function per method the handlers call.  A call returns
  (\<open>Inr\<close>) or throws (\<open>Inl\<close>).  Job results are JSON objects, an allowance is an
  unsigned integer.
\<close>

record BankrClient =
  c_prompt :: "jsval \<Rightarrow> jsval \<Rightarrow> jsval \<Rightarrow> raw_error + (string \<times> json) list"
  c_getJobStatus :: "string \<Rightarrow> raw_error + (string \<times> json) list"
  c_promptAndWait :: "wait_args \<Rightarrow> raw_error + (string \<times> json) list"
  c_checkAllowance :: "string \<Rightarrow> raw_error + nat"
  c_approve :: "jsval \<Rightarrow> amount_arg \<Rightarrow> raw_error + json"
  c_getWalletAddress :: json

section \<open>Requests\<close>

text \<open>
  What the handlers read of a request: the \<open>x-proxy-token\<close> header, the fields of the
  JSON body (\<open>JUndefined\<close> when absent; \<open>poll_*\<close> are \<open>poll?.interval\<close>,
  \<open>poll?.maxAttempts\<close>, \<open>poll?.timeout\<close>), the \<open>:jobId\<close> route parameter, and
  the method and URL.
\<close>

record request =
  x_proxy_token :: "string option"
  prompt :: jsval
  walletAddress :: jsval
  xmtp :: jsval
  timeout :: jsval
  interval :: jsval
  amount :: jsval
  spender :: jsval
  poll_interval :: jsval
  poll_maxAttempts :: jsval
  poll_timeout :: jsval
  jobId :: string
  req_method :: string
  originalUrl :: string

section \<open>Request validation (server.js)\<close>

text \<open>
  The validators of express-validator that server.js chains.  \<open>isString\<close> tests the
  value itself; the others are validator.js predicates on the value's string form:
  \<open>isLength\<close> bounds the length, \<open>isEthereumAddress\<close> matches
  \<open>/^(0x)[0-9a-f]{40}$/i\<close>, \<open>isBoolean\<close> accepts \<open>true\<close>, \<open>false\<close>, \<open>1\<close>, \<open>0\<close>,
  and \<open>isInt\<close> accepts a decimal numeral \<open>[-+]?[0-9]+\<close> whose value is within the
  bounds (for a number, the number itself).
\<close>

definition isString :: "jsval \<Rightarrow> bool" where
  "isString v = is_string v"

definition isLength :: "nat \<Rightarrow> nat \<Rightarrow> jsval \<Rightarrow> bool" where
  "isLength lo hi v = (lo \<le> length (js_toString v) \<and> length (js_toString v) \<le> hi)"

definition is_hex_digit :: "char \<Rightarrow> bool" where
  "is_hex_digit c = (c \<in> set ''0123456789abcdefABCDEF'')"

definition isEthereumAddress :: "jsval \<Rightarrow> bool" where
  "isEthereumAddress v =
     (case js_toString v of
        c0 # c1 # rest \<Rightarrow>
          c0 = CHR ''0'' \<and> (c1 = CHR ''x'' \<or> c1 = CHR ''X'') \<and> length rest = 40 \<and>
          list_all is_hex_digit rest
      | _ \<Rightarrow> False)"

definition isBoolean :: "jsval \<Rightarrow> bool" where
  "isBoolean v = (js_toString v \<in> set [''true'', ''false'', ''1'', ''0''])"

definition isInt :: "int \<Rightarrow> int \<Rightarrow> jsval \<Rightarrow> bool" where
  "isInt lo hi v =
     (case v of
        JNum n \<Rightarrow> lo \<le> n \<and> n \<le> hi
      | JStr s \<Rightarrow> (case parse_int s of Some n \<Rightarrow> lo \<le> n \<and> n \<le> hi | None \<Rightarrow> False)
      | _ \<Rightarrow> False)"

text \<open>One entry of \<open>errors.array()\<close>: the offending value, the message, the field, the location.\<close>

datatype verr = VErr (v_value: jsval) (v_msg: string) (v_param: string) (v_location: string)

definition verr_json :: "verr \<Rightarrow> json" where
  "verr_json e =
     JObject [(''value'', JV (v_value e)), (''msg'', JV (JStr (v_msg e))),
              (''param'', JV (JStr (v_param e))), (''location'', JV (JStr (v_location e)))]"

text \<open>
  A validator of a chain records an error when it fails (the chain does not stop at the
  first failure); \<open>withMessage\<close> names the message of the validator before it, and a
  validator without one reports \<open>Invalid value\<close>.  \<open>optional()\<close> skips the chain of a
  field that is \<open>undefined\<close>.
\<close>

definition check :: "bool \<Rightarrow> jsval \<Rightarrow> string \<Rightarrow> string \<Rightarrow> verr list" where
  "check ok v m p = (if ok then [] else [VErr v m p ''body''])"

definition optional :: "jsval \<Rightarrow> verr list \<Rightarrow> verr list" where
  "optional v errs = (if v = JUndefined then [] else errs)"

definition prompt_chain :: "request \<Rightarrow> verr list" where
  "prompt_chain req =
     check (isString (prompt req)) (prompt req) ''Invalid value'' ''prompt'' @
     check (isLength 1 10000 (prompt req)) (prompt req)
       ''Prompt must be a string between 1 and 10000 characters'' ''prompt''"

definition walletAddress_chain :: "request \<Rightarrow> verr list" where
  "walletAddress_chain req =
     optional (walletAddress req)
       (check (isEthereumAddress (walletAddress req)) (walletAddress req)
          ''Invalid Ethereum address format'' ''walletAddress'')"

definition xmtp_chain :: "request \<Rightarrow> verr list" where
  "xmtp_chain req =
     optional (xmtp req)
       (check (isBoolean (xmtp req)) (xmtp req) ''xmtp must be a boolean value'' ''xmtp'')"

definition timeout_chain :: "request \<Rightarrow> verr list" where
  "timeout_chain req =
     optional (timeout req)
       (check (isInt 1000 300000 (timeout req)) (timeout req)
          ''Timeout must be between 1000ms and 300000ms (5 minutes)'' ''timeout'')"

definition interval_chain :: "request \<Rightarrow> verr list" where
  "interval_chain req =
     optional (interval req)
       (check (isInt 1000 10000 (interval req)) (interval req)
          ''Interval must be between 1000ms and 10000ms'' ''interval'')"

definition amount_chain :: "request \<Rightarrow> verr list" where
  "amount_chain req =
     optional (amount req)
       (check (isString (amount req)) (amount req)
          ''Amount must be a string representation of a number'' ''amount'')"

text \<open>A route parameter is always a string, so \<open>isString\<close> never fails on \<open>jobId\<close>.\<close>

definition jobId_chain :: "request \<Rightarrow> verr list" where
  "jobId_chain req =
     (if isLength 1 100 (JStr (jobId req)) then []
      else [VErr (JStr (jobId req)) ''Job ID must be a valid string'' ''jobId'' ''params''])"

text \<open>The validator lists of the four validated routes.\<close>

definition prompt_validators :: "request \<Rightarrow> verr list" where
  "prompt_validators req = prompt_chain req @ walletAddress_chain req @ xmtp_chain req"

definition job_validators :: "request \<Rightarrow> verr list" where
  "job_validators req = jobId_chain req"

definition prompt_and_wait_validators :: "request \<Rightarrow> verr list" where
  "prompt_and_wait_validators req =
     prompt_chain req @ walletAddress_chain req @ xmtp_chain req @
     timeout_chain req @ interval_chain req"

definition approve_validators :: "request \<Rightarrow> verr list" where
  "approve_validators req = amount_chain req"

text \<open>
  \<open>handleValidationErrors\<close>: with errors it answers 400 and the route's handler never
  runs (\<open>Some\<close>); without, it calls \<open>next()\<close> (\<open>None\<close>).
\<close>

definition handleValidationErrors :: "string \<Rightarrow> verr list \<Rightarrow> response option" where
  "handleValidationErrors now errors =
     (if errors \<noteq> [] then
        Some (res_status_json 400
          (JObject [(''success'', JV (JBool False)),
                    (''error'', JObject [(''code'', JV (JStr ''VALIDATION_ERROR'')),
                                         (''message'', JV (JStr ''Invalid request data'')),
                                         (''details'', JArray (map verr_json errors))]),
                    (''timestamp'', JV (JStr now))]))
      else None)"

section \<open>The routes of server.js\<close>

text \<open>
  A handler takes the client, the clock reading \<open>now\<close> and the request, and returns
  the response with the list of network calls it made.  Logging has no part in either.
\<close>

definition facilitatorAddress :: string where
  "facilitatorAddress = ''0x4a15fc613c713FC52E907a77071Ec2d0a392a584''"

text \<open>The decimal string server.js names \<open>max uint256\<close>.\<close>

definition max_uint256_string :: string where
  "max_uint256_string =
     ''115792089237316195423570985008687907853269984665640564039457584007913129639935''"

subsection \<open>The rate limiter's message\<close>

text \<open>
  The body \<open>express-rate-limit\<close> is configured to answer with; its timestamp is taken
  once, when the server starts.
\<close>

definition rate_limit_message :: "string \<Rightarrow> json" where
  "rate_limit_message started =
     JObject [(''success'', JV (JBool False)),
              (''error'', JObject [(''code'', JV (JStr ''RATE_LIMIT_EXCEEDED'')),
                                   (''message'',
                                      JV (JStr ''Too many requests, please try again later'')),
                                   (''details'',
                                      JV (JStr ''Rate limit exceeded. Please wait before making more requests.''))]),
              (''timestamp'', JV (JStr started))]"

text \<open>
  Modelled from the spec: the status of the limiter's answer is the default of the
  \<open>express-rate-limit\<close> package, whose source is not in the repository; the spec gives
  a rate-limited request the status 429.
\<close>

definition rate_limit_status :: nat where
  "rate_limit_status = 429"

text \<open>
  \<open>app.use('/api/', limiter)\<close> stands before the body parsers, the validators and the
  routes.  Whether the caller has used up its requests of the current window is the
  limiter's own state, here the flag \<open>over_limit\<close>: over the limit the limiter
  answers (\<open>Some\<close>) and nothing behind it runs; within it the limiter calls \<open>next()\<close>
  (\<open>None\<close>).  \<open>behind_limiter\<close> is what a caller of an \<open>/api/\<close> route is served.
\<close>

definition limiter :: "bool \<Rightarrow> string \<Rightarrow> response option" where
  "limiter over_limit started =
     (if over_limit then Some (res_status_json rate_limit_status (rate_limit_message started))
      else None)"

definition behind_limiter ::
  "bool \<Rightarrow> string \<Rightarrow> response \<times> call list \<Rightarrow> response \<times> call list" where
  "behind_limiter over_limit started served =
     (case limiter over_limit started of Some r \<Rightarrow> (r, []) | None \<Rightarrow> served)"

subsection \<open>GET /api/health\<close>

definition api_health_catch :: "string \<Rightarrow> jsval \<Rightarrow> raw_error \<Rightarrow> response" where
  "api_health_catch now uptime error =
     res_status_json 503
       (JObject [(''status'', JV (JStr ''unhealthy'')),
                 (''timestamp'', JV (JStr now)),
                 (''uptime'', JV uptime),
                 (''bankrConnection'', JV (JStr ''disconnected'')),
                 (''error'', JV (JStr (message error)))])"

definition api_health :: "BankrClient \<Rightarrow> string \<Rightarrow> jsval \<Rightarrow> response \<times> call list" where
  "api_health client now uptime =
     (case c_checkAllowance client facilitatorAddress of
        Inr allowance \<Rightarrow>
          (res_json (JObject [(''status'', JV (JStr ''healthy'')),
                              (''timestamp'', JV (JStr now)),
                              (''uptime'', JV uptime),
                              (''bankrConnection'', JV (JStr ''connected'')),
                              (''allowance'', JV (JStr (show_nat allowance)))]),
           [CCheckAllowance facilitatorAddress])
      | Inl error \<Rightarrow> (api_health_catch now uptime error, [CCheckAllowance facilitatorAddress]))"

subsection \<open>POST /api/prompt\<close>

text \<open>The \<open>catch\<close> branch: the substring checks run in the order 402, 401, fallback.\<close>

definition api_prompt_catch :: "string \<Rightarrow> raw_error \<Rightarrow> response" where
  "api_prompt_catch now error =
     (if str_includes (message error) ''402'' then
        res_status_json 402 (formatErrorResponse now ''PAYMENT_REQUIRED''
          ''Payment required for this request''
          (JV (JStr ''Ensure you have sufficient $BNKR tokens and proper allowance set'')))
      else if str_includes (message error) ''401'' then
        res_status_json 401 (formatErrorResponse now ''UNAUTHORIZED''
          ''Invalid API key''
          (JV (JStr ''Check your Bankr API key configuration'')))
      else
        res_status_json 500 (formatErrorResponse now ''INTERNAL_ERROR''
          ''Failed to submit prompt''
          (JV (JStr (message error)))))"

definition api_prompt :: "BankrClient \<Rightarrow> string \<Rightarrow> request \<Rightarrow> response \<times> call list" where
  "api_prompt client now req =
     (case handleValidationErrors now (prompt_validators req) of
        Some r \<Rightarrow> (r, [])
      | None \<Rightarrow>
          (let x = destructure_default (xmtp req) (JBool False) in
           case c_prompt client (prompt req) (walletAddress req) x of
             Inr resp \<Rightarrow> (res_json (JObject resp), [CPrompt (prompt req) (walletAddress req) x])
           | Inl error \<Rightarrow>
               (api_prompt_catch now error, [CPrompt (prompt req) (walletAddress req) x])))"

subsection \<open>GET /api/job/:jobId\<close>

definition api_job_catch :: "string \<Rightarrow> raw_error \<Rightarrow> response" where
  "api_job_catch now error =
     (if str_includes (message error) ''404'' then
        res_status_json 404 (formatErrorResponse now ''JOB_NOT_FOUND''
          ''Job not found''
          (JV (JStr ''The specified job ID does not exist'')))
      else
        res_status_json 500 (formatErrorResponse now ''INTERNAL_ERROR''
          ''Failed to retrieve job status''
          (JV (JStr (message error)))))"

definition api_job :: "BankrClient \<Rightarrow> string \<Rightarrow> request \<Rightarrow> response \<times> call list" where
  "api_job client now req =
     (case handleValidationErrors now (job_validators req) of
        Some r \<Rightarrow> (r, [])
      | None \<Rightarrow>
          (case c_getJobStatus client (jobId req) of
             Inr st \<Rightarrow> (res_json (JObject st), [CGetJobStatus (jobId req)])
           | Inl error \<Rightarrow> (api_job_catch now error, [CGetJobStatus (jobId req)])))"

subsection \<open>POST /api/prompt-and-wait\<close>

text \<open>
  \<open>Number(x)\<close> of a value that passed \<open>isInt\<close>: the number itself, or the integer a
  string spells.  \<open>None\<close> is every other outcome (\<open>NaN\<close>, or a string in a notation
  \<open>isInt\<close> rejects).
\<close>

definition to_number :: "jsval \<Rightarrow> int option" where
  "to_number v = (case v of JNum n \<Rightarrow> Some n | JStr s \<Rightarrow> parse_int s | _ \<Rightarrow> None)"

text \<open>
  \<open>Math.floor(a / b)\<close>.  Integer division in HOL rounds down, as \<open>Math.floor\<close> does;
  a zero divisor gives \<open>Infinity\<close> or \<open>NaN\<close>.
\<close>

definition math_floor_div :: "jsval \<Rightarrow> jsval \<Rightarrow> jsval" where
  "math_floor_div a b =
     (case (to_number a, to_number b) of
        (Some x, Some y) \<Rightarrow> if y = 0 then JNaN else JNum (x div y)
      | _ \<Rightarrow> JNaN)"

text \<open>The argument object the handler builds for \<open>promptAndWait\<close>.\<close>

definition prompt_and_wait_args :: "request \<Rightarrow> wait_args" where
  "prompt_and_wait_args req =
     (let t = destructure_default (timeout req) (JNum 300000);
          i = destructure_default (interval req) (JNum 2000)
      in \<lparr>arg_prompt = prompt req,
          arg_walletAddress = walletAddress req,
          arg_xmtp = destructure_default (xmtp req) (JBool False),
          arg_interval = i,
          arg_maxAttempts = math_floor_div t i,
          arg_timeout = t\<rparr>)"

text \<open>The \<open>catch\<close> branch: the substring checks run in the order timeout, 402, fallback.\<close>

definition api_prompt_and_wait_catch :: "string \<Rightarrow> raw_error \<Rightarrow> response" where
  "api_prompt_and_wait_catch now error =
     (if str_includes (message error) ''timeout'' then
        res_status_json 408 (formatErrorResponse now ''REQUEST_TIMEOUT''
          ''Request timed out''
          (JV (JStr ''The request took longer than the specified timeout period'')))
      else if str_includes (message error) ''402'' then
        res_status_json 402 (formatErrorResponse now ''PAYMENT_REQUIRED''
          ''Payment required for this request''
          (JV (JStr ''Ensure you have sufficient $BNKR tokens and proper allowance set'')))
      else
        res_status_json 500 (formatErrorResponse now ''INTERNAL_ERROR''
          ''Failed to process prompt and wait request''
          (JV (JStr (message error)))))"

definition api_prompt_and_wait ::
  "BankrClient \<Rightarrow> string \<Rightarrow> request \<Rightarrow> response \<times> call list" where
  "api_prompt_and_wait client now req =
     (case handleValidationErrors now (prompt_and_wait_validators req) of
        Some r \<Rightarrow> (r, [])
      | None \<Rightarrow>
          (let args = prompt_and_wait_args req in
           case c_promptAndWait client args of
             Inr result \<Rightarrow> (res_json (JObject result), [CPromptAndWait args])
           | Inl error \<Rightarrow> (api_prompt_and_wait_catch now error, [CPromptAndWait args])))"

subsection \<open>GET /api/allowance\<close>

definition api_allowance_catch :: "string \<Rightarrow> raw_error \<Rightarrow> response" where
  "api_allowance_catch now error =
     res_status_json 500 (formatErrorResponse now ''INTERNAL_ERROR''
       ''Failed to check allowance'' (JV (JStr (message error))))"

definition api_allowance :: "BankrClient \<Rightarrow> string \<Rightarrow> response \<times> call list" where
  "api_allowance client now =
     (case c_checkAllowance client facilitatorAddress of
        Inr allowance \<Rightarrow>
          (res_json (JObject [(''success'', JV (JBool True)),
                              (''allowance'', JV (JStr (show_nat allowance))),
                              (''facilitatorAddress'', JV (JStr facilitatorAddress)),
                              (''timestamp'', JV (JStr now))]),
           [CCheckAllowance facilitatorAddress])
      | Inl error \<Rightarrow> (api_allowance_catch now error, [CCheckAllowance facilitatorAddress]))"

subsection \<open>POST /api/approve\<close>

text \<open>\<open>req.body.amount || '1157...9935'\<close>: the amount the handler asks \<open>approve\<close> for.\<close>

definition approve_amount :: "request \<Rightarrow> jsval" where
  "approve_amount req = or_else (amount req) (JStr max_uint256_string)"

definition api_approve_catch :: "string \<Rightarrow> raw_error \<Rightarrow> response" where
  "api_approve_catch now error =
     res_status_json 500 (formatErrorResponse now ''INTERNAL_ERROR''
       ''Failed to approve tokens'' (JV (JStr (message error))))"

definition api_approve :: "BankrClient \<Rightarrow> string \<Rightarrow> request \<Rightarrow> response \<times> call list" where
  "api_approve client now req =
     (case handleValidationErrors now (approve_validators req) of
        Some r \<Rightarrow> (r, [])
      | None \<Rightarrow>
          (let a = approve_amount req in
           case c_approve client (JStr facilitatorAddress) (AmountVal a) of
             Inr approvalTx \<Rightarrow>
               (res_json (JObject [(''success'', JV (JBool True)),
                                   (''transactionHash'', approvalTx),
                                   (''facilitatorAddress'', JV (JStr facilitatorAddress)),
                                   (''amount'', JV a),
                                   (''message'',
                                      JV (JStr ''Approval transaction submitted successfully'')),
                                   (''timestamp'', JV (JStr now))]),
                [CApprove (JStr facilitatorAddress) (AmountVal a)])
           | Inl error \<Rightarrow>
               (api_approve_catch now error,
                [CApprove (JStr facilitatorAddress) (AmountVal a)])))"

subsection \<open>The 404 handler and the global error handler\<close>

definition not_found_handler :: "string \<Rightarrow> request \<Rightarrow> response" where
  "not_found_handler now req =
     res_status_json 404 (formatErrorResponse now ''NOT_FOUND'' ''Endpoint not found''
       (JV (JStr (''The requested endpoint '' @ req_method req @ '' '' @ originalUrl req @
                  '' does not exist''))))"

definition global_error_handler :: "string option \<Rightarrow> string \<Rightarrow> raw_error \<Rightarrow> response" where
  "global_error_handler node_env now error =
     res_status_json 500 (formatErrorResponse now ''INTERNAL_ERROR''
       ''An unexpected error occurred''
       (JV (JStr (if node_env = Some ''development'' then message error
                  else ''Please try again later''))))"

section \<open>The proxy variants (the two unnamed source files)\<close>

text \<open>
  Both files read the optional shared secret \<open>BANKR_PROXY_TOKEN\<close> from the environment
  and open every \<open>/api/bankr\<close> route with
  \<open>BANKR_PROXY_TOKEN && req.get("x-proxy-token") !== BANKR_PROXY_TOKEN\<close>:
  an unset or empty secret switches the test off.
\<close>

definition proxy_token_mismatch :: "string option \<Rightarrow> request \<Rightarrow> bool" where
  "proxy_token_mismatch token req =
     (case token of
        None \<Rightarrow> False
      | Some t \<Rightarrow> t \<noteq> [] \<and> x_proxy_token req \<noteq> Some t)"

definition plain_error :: "string \<Rightarrow> json" where
  "plain_error m = JObject [(''error'', JV (JStr m))]"

text \<open>
  The \<open>catch\<close> branch all four routes share:
  \<open>res.status(500).json({ error: err?.message ?? "unknown error" })\<close>.  A thrown
  \<open>Error\<close> has its message, so the fallback text is never used.
\<close>

definition bankr_catch :: "raw_error \<Rightarrow> response" where
  "bankr_catch err = res_status_json 500 (plain_error (message err))"

text \<open>\<open>x ?? d\<close> on a property of a job result.\<close>

fun json_nullish :: "json \<Rightarrow> json \<Rightarrow> json" where
  "json_nullish (JV JUndefined) d = d"
| "json_nullish (JV JNull) d = d"
| "json_nullish x d = x"

definition job_result_json :: "(string \<times> json) list \<Rightarrow> json" where
  "job_result_json result =
     JObject [(''jobId'', get_prop (JObject result) ''jobId''),
              (''status'', get_prop (JObject result) ''status''),
              (''response'', json_nullish (get_prop (JObject result) ''response'') (JV JNull)),
              (''transactions'',
                 json_nullish (get_prop (JObject result) ''transactions'') (JArray [])),
              (''richData'', json_nullish (get_prop (JObject result) ''richData'') (JArray []))]"

subsection \<open>POST /api/bankr/prompt (first file)\<close>

definition bankr_prompt_args :: "request \<Rightarrow> wait_args" where
  "bankr_prompt_args req =
     \<lparr>arg_prompt = prompt req,
      arg_walletAddress = walletAddress req,
      arg_xmtp = xmtp req,
      arg_interval = nullish (poll_interval req) (JNum 2000),
      arg_maxAttempts = nullish (poll_maxAttempts req) (JNum 150),
      arg_timeout = nullish (poll_timeout req) (JNum 300000)\<rparr>"

definition bankr_prompt ::
  "string option \<Rightarrow> BankrClient \<Rightarrow> request \<Rightarrow> response \<times> call list" where
  "bankr_prompt token client req =
     (if proxy_token_mismatch token req then
        (res_status_json 401 (plain_error ''unauthorized''), [])
      else if \<not> truthy (prompt req) \<or> \<not> is_string (prompt req) then
        (res_status_json 400 (plain_error ''prompt is required''), [])
      else
        (let args = bankr_prompt_args req in
         case c_promptAndWait client args of
           Inr result \<Rightarrow> (res_json (job_result_json result), [CPromptAndWait args])
         | Inl err \<Rightarrow> (bankr_catch err, [CPromptAndWait args])))"

subsection \<open>POST /api/bankr/approve (first file)\<close>

text \<open>
  \<open>amount ? BigInt(amount) : undefined\<close>.  The conversion \<open>BigInt\<close> is a parameter: it
  returns the integer or throws.  It runs before \<open>approve\<close> is called.
\<close>

definition bankr_approve_amount ::
  "(jsval \<Rightarrow> raw_error + int) \<Rightarrow> request \<Rightarrow> raw_error + amount_arg" where
  "bankr_approve_amount BigInt req =
     (if truthy (amount req) then
        (case BigInt (amount req) of Inl err \<Rightarrow> Inl err | Inr n \<Rightarrow> Inr (AmountBigInt n))
      else Inr (AmountVal JUndefined))"

definition bankr_approve ::
  "(jsval \<Rightarrow> raw_error + int) \<Rightarrow> string option \<Rightarrow> BankrClient \<Rightarrow> request \<Rightarrow>
   response \<times> call list" where
  "bankr_approve BigInt token client req =
     (if proxy_token_mismatch token req then
        (res_status_json 401 (plain_error ''unauthorized''), [])
      else if \<not> truthy (spender req) then
        (res_status_json 400 (plain_error ''spender is required''), [])
      else
        (case bankr_approve_amount BigInt req of
           Inl err \<Rightarrow> (bankr_catch err, [])
         | Inr a \<Rightarrow>
             (case c_approve client (spender req) a of
                Inr txHash \<Rightarrow>
                  (res_json (JObject [(''txHash'', txHash),
                                      (''wallet'', c_getWalletAddress client)]),
                   [CApprove (spender req) a])
              | Inl err \<Rightarrow> (bankr_catch err, [CApprove (spender req) a]))))"

subsection \<open>POST /api/bankr/approve-bnkr (second file)\<close>

text \<open>
  Modelled from the spec: \<open>maxUint256\<close> is imported from the viem package, whose
  source is not in the repository; the spec names the default amount the maximum
  representable unsigned 256-bit value.
\<close>

definition maxUint256 :: int where
  "maxUint256 = 2 ^ 256 - 1"

definition bankr_approve_bnkr ::
  "string option \<Rightarrow> BankrClient \<Rightarrow> request \<Rightarrow> response \<times> call list" where
  "bankr_approve_bnkr token client req =
     (if proxy_token_mismatch token req then
        (res_status_json 401 (plain_error ''unauthorized''), [])
      else
        (let sp = facilitatorAddress in
         case c_approve client (JStr sp) (AmountBigInt maxUint256) of
           Inl e \<Rightarrow> (bankr_catch e, [CApprove (JStr sp) (AmountBigInt maxUint256)])
         | Inr txHash \<Rightarrow>
             (case c_checkAllowance client sp of
                Inl e \<Rightarrow>
                  (bankr_catch e,
                   [CApprove (JStr sp) (AmountBigInt maxUint256), CCheckAllowance sp])
              | Inr allowance \<Rightarrow>
                  (res_json (JObject [(''txHash'', txHash),
                                      (''allowance'', JV (JStr (show_nat allowance))),
                                      (''wallet'', c_getWalletAddress client)]),
                   [CApprove (JStr sp) (AmountBigInt maxUint256), CCheckAllowance sp]))))"

subsection \<open>POST /api/bankr/promptAndWait (second file)\<close>

definition bankr_promptAndWait_args :: "request \<Rightarrow> wait_args" where
  "bankr_promptAndWait_args req =
     \<lparr>arg_prompt = prompt req,
      arg_walletAddress = walletAddress req,
      arg_xmtp = xmtp req,
      arg_interval = JNum 2000,
      arg_maxAttempts = JNum 150,
      arg_timeout = JNum 300000\<rparr>"

definition bankr_promptAndWait ::
  "string option \<Rightarrow> BankrClient \<Rightarrow> request \<Rightarrow> response \<times> call list" where
  "bankr_promptAndWait token client req =
     (if proxy_token_mismatch token req then
        (res_status_json 401 (plain_error ''unauthorized''), [])
      else if \<not> truthy (prompt req) \<or> \<not> is_string (prompt req) then
        (res_status_json 400 (plain_error ''prompt is required''), [])
      else
        (let args = bankr_promptAndWait_args req in
         case c_promptAndWait client args of
           Inr result \<Rightarrow> (res_json (job_result_json result), [CPromptAndWait args])
         | Inl e \<Rightarrow> (bankr_catch e, [CPromptAndWait args])))"

section \<open>Startup\<close>

text \<open>
  How loading a server file ends: the process exits with a status, an uncaught error
  ends it, or it reaches \<open>app.listen\<close> on a port.  The environment is a map from
  variable names to their values.  The \<open>BankrClient\<close> constructor is a parameter: it
  returns the client or throws.
\<close>

datatype startup = Exited nat | Threw string | Listening jsval

text \<open>\<open>!process.env[v]\<close>: unset, or set to the empty string.\<close>

definition env_missing :: "(string \<rightharpoonup> string) \<Rightarrow> string \<Rightarrow> bool" where
  "env_missing env v = (case env v of None \<Rightarrow> True | Some s \<Rightarrow> s = [])"

definition requiredEnvVars :: "string list" where
  "requiredEnvVars = [''BANKR_API_KEY'', ''PRIVATE_KEY'', ''WALLET_ADDRESS'']"

definition missingEnvVars :: "(string \<rightharpoonup> string) \<Rightarrow> string list" where
  "missingEnvVars env = filter (env_missing env) requiredEnvVars"

definition server_startup ::
  "((string \<times> string option) list \<Rightarrow> raw_error + BankrClient) \<Rightarrow> (string \<rightharpoonup> string) \<Rightarrow> startup"
  where
  "server_startup new_client env =
     (if length (missingEnvVars env) > 0 then Exited 1
      else
        (case new_client [(''apiKey'', env ''BANKR_API_KEY''),
                          (''privateKey'', env ''PRIVATE_KEY''),
                          (''walletAddress'', env ''WALLET_ADDRESS''),
                          (''network'', Some ''base'')] of
           Inl error \<Rightarrow> Exited 1
         | Inr client \<Rightarrow>
             Listening (case env ''PORT'' of
                          None \<Rightarrow> JNum 3000
                        | Some p \<Rightarrow> if p = [] then JNum 3000 else JStr p)))"

text \<open>
  The two proxy files share their startup but for the text of the error:
  \<open>if (!BANKR_API_KEY || !BANKR_PRIVATE_KEY) throw new Error(...)\<close>, then the
  constructor, then \<open>app.listen(PORT)\<close> with \<open>PORT = 3000\<close> when the variable is unset.
\<close>

definition proxy_startup ::
  "string \<Rightarrow> ((string \<times> string option) list \<Rightarrow> raw_error + BankrClient) \<Rightarrow>
   (string \<rightharpoonup> string) \<Rightarrow> startup" where
  "proxy_startup what new_client env =
     (if env_missing env ''BANKR_API_KEY'' \<or> env_missing env ''BANKR_PRIVATE_KEY'' then
        Threw what
      else
        (case new_client
                ([(''apiKey'', env ''BANKR_API_KEY''),
                  (''privateKey'', env ''BANKR_PRIVATE_KEY'')] @
                 (if env_missing env ''BANKR_BASE_URL'' then []
                  else [(''baseUrl'', env ''BANKR_BASE_URL'')])) of
           Inl error \<Rightarrow> Threw (message error)
         | Inr client \<Rightarrow>
             Listening (case env ''PORT'' of None \<Rightarrow> JNum 3000 | Some p \<Rightarrow> JStr p)))"

definition bankr_prompt_startup ::
  "((string \<times> string option) list \<Rightarrow> raw_error + BankrClient) \<Rightarrow> (string \<rightharpoonup> string) \<Rightarrow> startup"
  where
  "bankr_prompt_startup = proxy_startup ''BANKR_API_KEY and BANKR_PRIVATE_KEY are required''"

definition bankr_promptAndWait_startup ::
  "((string \<times> string option) list \<Rightarrow> raw_error + BankrClient) \<Rightarrow> (string \<rightharpoonup> string) \<Rightarrow> startup"
  where
  "bankr_promptAndWait_startup = proxy_startup ''Missing BANKR_API_KEY or BANKR_PRIVATE_KEY''"

section \<open>The poll-until-terminal loop\<close>

text \<open>
  Modelled from the spec: \<open>promptAndWait\<close> is a method of the \<open>@bankr/sdk\<close> package,
  whose source is not in the repository; only its three call sites are.  The spec
  (PollOrchestrator) gives the algorithm: submit once; if the initial status is terminal,
  return; otherwise loop: sleep for \<open>interval\<close>, fetch the status, inspect it; repeat until
  the status is terminal, the attempts reach \<open>maxAttempts\<close>, or the elapsed time reaches
  \<open>timeout\<close>; exhausting either bound fails with TIMEOUT, and a failing status fetch aborts
  the call with its error.

  The downstream service is a function from the number of the status check to what that
  check returns, and \<open>latency\<close> gives the milliseconds the check itself takes.  The loop
  returns the outcome with the number of status checks made and the milliseconds elapsed.
\<close>

datatype job_status = Pending | Processing | Completed | Failed

fun terminal :: "job_status \<Rightarrow> bool" where
  "terminal Completed = True"
| "terminal Failed = True"
| "terminal _ = False"

record PollConfig =
  pc_interval :: nat
  pc_maxAttempts :: nat
  pc_timeout :: nat

datatype poll_outcome = Done job_status | TimedOut | Aborted raw_error

function poll_loop ::
  "PollConfig \<Rightarrow> (nat \<Rightarrow> raw_error + job_status) \<Rightarrow> (nat \<Rightarrow> nat) \<Rightarrow> nat \<Rightarrow> nat \<Rightarrow>
   poll_outcome \<times> nat \<times> nat" where
  "poll_loop cfg fetch latency attempts elapsed =
     (if pc_maxAttempts cfg \<le> attempts \<or> pc_timeout cfg \<le> elapsed then
        (TimedOut, attempts, elapsed)
      else
        (let elapsed' = elapsed + pc_interval cfg + latency attempts in
         case fetch attempts of
           Inl e \<Rightarrow> (Aborted e, Suc attempts, elapsed')
         | Inr st \<Rightarrow>
             if terminal st then (Done st, Suc attempts, elapsed')
             else poll_loop cfg fetch latency (Suc attempts) elapsed'))"
  by pat_completeness auto
termination
  by (relation "measure (\<lambda>(cfg, fetch, latency, attempts, elapsed). pc_maxAttempts cfg - attempts)")
     auto

declare poll_loop.simps [simp del]

definition submitAndAwait ::
  "PollConfig \<Rightarrow> raw_error + job_status \<Rightarrow> (nat \<Rightarrow> raw_error + job_status) \<Rightarrow> (nat \<Rightarrow> nat) \<Rightarrow>
   poll_outcome \<times> nat \<times> nat" where
  "submitAndAwait cfg submitted fetch latency =
     (case submitted of
        Inl e \<Rightarrow> (Aborted e, 0, 0)
      | Inr st \<Rightarrow> if terminal st then (Done st, 0, 0) else poll_loop cfg fetch latency 0 0)"


section \<open>Error kinds, error bodies and the targets of calls\<close>

text \<open>
  The error kinds of the spec, with the name and the HTTP status the spec gives each
  (its sections 3 and 4.4).  These definitions follow the spec, not the code: the
  theorems compare the code with them.  \<open>error_kind\<close> is the kind whose status a
  response has; the kind a response names in its body is \<open>assigned_kind\<close> below.
\<close>

datatype ErrorKind =
  PAYMENT_REQUIRED | UNAUTHORIZED | NOT_FOUND | TIMEOUT | RATE_LIMITED | VALIDATION_ERROR | INTERNAL


fun http_status :: "ErrorKind \<Rightarrow> nat" where
  "http_status PAYMENT_REQUIRED = 402"
| "http_status UNAUTHORIZED = 401"
| "http_status NOT_FOUND = 404"
| "http_status TIMEOUT = 408"
| "http_status RATE_LIMITED = 429"
| "http_status VALIDATION_ERROR = 400"
| "http_status INTERNAL = 500"


text \<open>
  The uniform error body \<open>{ success: false, error: { code, message, details? }, timestamp }\<close>:
  an object with exactly these three keys, \<open>success\<close> false, \<open>timestamp\<close> a string, and
  \<open>error\<close> an object with a string \<open>code\<close>, a string \<open>message\<close> and no key beyond
  \<open>details\<close>.
\<close>

definition is_json_string :: "json option \<Rightarrow> bool" where
  "is_json_string j = (case j of Some (JV (JStr s)) \<Rightarrow> True | _ \<Rightarrow> False)"

definition error_shape :: "json \<Rightarrow> bool" where
  "error_shape b =
     (case b of
        JObject kvs \<Rightarrow>
          set (map fst kvs) = {''success'', ''error'', ''timestamp''} \<and>
          map_of kvs ''success'' = Some (JV (JBool False)) \<and>
          is_json_string (map_of kvs ''timestamp'') \<and>
          (case map_of kvs ''error'' of
             Some (JObject e) \<Rightarrow>
               is_json_string (map_of e ''code'') \<and> is_json_string (map_of e ''message'') \<and>
               set (map fst e) \<subseteq> {''code'', ''message'', ''details''}
           | _ \<Rightarrow> False)
      | _ \<Rightarrow> False)"

text \<open>
  How server.js spells each error kind in \<open>error.code\<close>, collected from its error
  branches, its 404 handler and its limiter.  \<open>follows_table\<close> tests that a response
  carries one of these codes together with the status the spec gives the code's kind;
  \<open>assigned_kind\<close> is the kind that the code in a response's body names.
\<close>

definition server_code_names :: "(ErrorKind \<times> string) list" where
  "server_code_names =
     [(PAYMENT_REQUIRED, ''PAYMENT_REQUIRED''), (UNAUTHORIZED, ''UNAUTHORIZED''),
      (NOT_FOUND, ''JOB_NOT_FOUND''), (NOT_FOUND, ''NOT_FOUND''),
      (TIMEOUT, ''REQUEST_TIMEOUT''), (RATE_LIMITED, ''RATE_LIMIT_EXCEEDED''),
      (VALIDATION_ERROR, ''VALIDATION_ERROR''), (INTERNAL, ''INTERNAL_ERROR'')]"

definition follows_table :: "response \<Rightarrow> bool" where
  "follows_table r =
     list_ex (\<lambda>(k, c). status r = http_status k \<and> error_code (body r) = JStr c)
       server_code_names"

definition assigned_kind :: "response \<Rightarrow> ErrorKind option" where
  "assigned_kind r =
     (case error_code (body r) of
        JStr c \<Rightarrow> map_of (map (\<lambda>(k, n). (n, k)) server_code_names) c
      | _ \<Rightarrow> None)"

text \<open>The address an allowance query or an approval is about; \<open>None\<close> for the other calls.\<close>

fun call_spender :: "call \<Rightarrow> jsval option" where
  "call_spender (CCheckAllowance s) = Some (JStr s)"
| "call_spender (CApprove s a) = Some s"
| "call_spender _ = None"


section \<open>Sample inputs\<close>

text \<open>A request with no header and an empty body, and clients whose every call throws or returns.\<close>

definition blank_request :: request where
  "blank_request =
     \<lparr>x_proxy_token = None, prompt = JUndefined, walletAddress = JUndefined,
      xmtp = JUndefined, timeout = JUndefined, interval = JUndefined, amount = JUndefined,
      spender = JUndefined, poll_interval = JUndefined, poll_maxAttempts = JUndefined,
      poll_timeout = JUndefined, jobId = ''job_1'', req_method = ''POST'',
      originalUrl = ''/api/prompt''\<rparr>"

definition hi_request :: request where
  "hi_request = blank_request\<lparr>prompt := JStr ''hi''\<rparr>"

definition throwing_client :: "string \<Rightarrow> BankrClient" where
  "throwing_client m =
     \<lparr>c_prompt = (\<lambda>p w x. Inl (JsError m)),
      c_getJobStatus = (\<lambda>j. Inl (JsError m)),
      c_promptAndWait = (\<lambda>a. Inl (JsError m)),
      c_checkAllowance = (\<lambda>s. Inl (JsError m)),
      c_approve = (\<lambda>s a. Inl (JsError m)),
      c_getWalletAddress = JV (JStr ''0xw'')\<rparr>"

text \<open>A stand-in for \<open>BigInt\<close>: it converts what spells an integer and throws on the rest.\<close>

definition sample_BigInt :: "jsval \<Rightarrow> raw_error + int" where
  "sample_BigInt v =
     (case to_number v of
        Some n \<Rightarrow> Inr n
      | None \<Rightarrow> Inl (JsError ''Cannot convert value to a BigInt''))"

definition returning_client :: BankrClient where
  "returning_client =
     \<lparr>c_prompt = (\<lambda>p w x. Inr [(''jobId'', JV (JStr ''job_1'')), (''status'', JV (JStr ''pending''))]),
      c_getJobStatus = (\<lambda>j. Inr [(''jobId'', JV (JStr j)), (''status'', JV (JStr ''processing''))]),
      c_promptAndWait =
        (\<lambda>a. Inr [(''jobId'', JV (JStr ''job_1'')), (''status'', JV (JStr ''completed''))]),
      c_checkAllowance = (\<lambda>s. Inr 0),
      c_approve = (\<lambda>s a. Inr (JV (JStr ''0xtx''))),
      c_getWalletAddress = JV (JStr ''0xw'')\<rparr>"

text \<open>A stand-in for the client's constructor that always succeeds.\<close>

definition sample_new_client :: "(string \<times> string option) list \<Rightarrow> raw_error + BankrClient" where
  "sample_new_client config = Inr returning_client"

section \<open>Basic facts\<close>

lemmas catch_defs = api_prompt_catch_def api_job_catch_def api_prompt_and_wait_catch_def
  api_allowance_catch_def api_approve_catch_def bankr_catch_def

lemma status_res_status_json: "status (res_status_json s b) = s"
  by (simp add: res_status_json_def)

lemma body_res_status_json: "body (res_status_json s b) = b"
  by (simp add: res_status_json_def)

lemma status_res_json: "status (res_json b) = 200"
  by (simp add: res_json_def)

lemma error_code_format: "error_code (formatErrorResponse now c m d) = JStr c"
  by (simp add: error_code_def formatErrorResponse_def)

lemma error_shape_format: "error_shape (formatErrorResponse now c m d)"
  by (auto simp add: error_shape_def formatErrorResponse_def is_json_string_def)

lemma error_code_plain: "error_code (plain_error m) = JUndefined"
  by (simp add: error_code_def plain_error_def)

lemma not_error_shape_plain: "\<not> error_shape (plain_error m)"
  by (simp add: error_shape_def plain_error_def)

lemma handleValidationErrors_None: "handleValidationErrors now errs = None \<longleftrightarrow> errs = []"
  by (simp add: handleValidationErrors_def)

lemma handleValidationErrors_Some:
  "handleValidationErrors now errs = Some r \<Longrightarrow>
     errs \<noteq> [] \<and> status r = 400 \<and> error_code (body r) = JStr ''VALIDATION_ERROR'' \<and>
     error_shape (body r)"
  by (auto simp add: handleValidationErrors_def res_status_json_def error_code_def
        error_shape_def is_json_string_def split: if_splits)

subsection \<open>What each catch branch answers\<close>

lemma follows_tableI:
  "(k, c) \<in> set server_code_names \<Longrightarrow> status r = http_status k \<Longrightarrow>
   error_code (body r) = JStr c \<Longrightarrow> follows_table r"
  by (auto simp add: follows_table_def list_ex_iff)

lemma follows_validation:
  "handleValidationErrors now errs = Some r \<Longrightarrow> follows_table r"
  by (rule follows_tableI [where c = "''VALIDATION_ERROR''" and k = VALIDATION_ERROR])
     (auto dest: handleValidationErrors_Some simp add: server_code_names_def)

lemma follows_prompt_catch: "follows_table (api_prompt_catch now e)"
  by (simp add: follows_table_def server_code_names_def api_prompt_catch_def
        status_res_status_json body_res_status_json error_code_format)

lemma follows_job_catch: "follows_table (api_job_catch now e)"
  by (simp add: follows_table_def server_code_names_def api_job_catch_def
        status_res_status_json body_res_status_json error_code_format)

lemma follows_prompt_and_wait_catch: "follows_table (api_prompt_and_wait_catch now e)"
  by (simp add: follows_table_def server_code_names_def api_prompt_and_wait_catch_def
        status_res_status_json body_res_status_json error_code_format)

lemma follows_allowance_catch: "follows_table (api_allowance_catch now e)"
  by (simp add: follows_table_def server_code_names_def api_allowance_catch_def
        status_res_status_json body_res_status_json error_code_format)

lemma follows_approve_catch: "follows_table (api_approve_catch now e)"
  by (simp add: follows_table_def server_code_names_def api_approve_catch_def
        status_res_status_json body_res_status_json error_code_format)




lemmas follows_catch = follows_prompt_catch follows_job_catch follows_prompt_and_wait_catch
  follows_allowance_catch follows_approve_catch

lemma shape_catch:
  "error_shape (body (api_prompt_catch now e))"
  "error_shape (body (api_job_catch now e))"
  "error_shape (body (api_prompt_and_wait_catch now e))"
  "error_shape (body (api_allowance_catch now e))"
  "error_shape (body (api_approve_catch now e))"
  by (simp_all add: catch_defs body_res_status_json error_shape_format)

lemma assigned_kind_format:
  "assigned_kind (res_status_json st (formatErrorResponse now c m d))
     = map_of (map (\<lambda>(k, n). (n, k)) server_code_names) c"
  by (simp add: assigned_kind_def body_res_status_json error_code_format)

lemma assigned_kind_plain: "assigned_kind (res_status_json st (plain_error m)) = None"
  by (simp add: assigned_kind_def body_res_status_json error_code_plain)

lemma follows_assigned:
  assumes "follows_table r"
  shows "\<exists>k. assigned_kind r = Some k \<and> status r = http_status k"
  using assms
  by (auto simp add: follows_table_def assigned_kind_def server_code_names_def)

lemma prompt_catch_kind:
  "assigned_kind (api_prompt_catch now e) =
     Some (if str_includes (message e) ''402'' then PAYMENT_REQUIRED
           else if str_includes (message e) ''401'' then UNAUTHORIZED else INTERNAL)"
  "status (api_prompt_catch now e) =
     http_status (if str_includes (message e) ''402'' then PAYMENT_REQUIRED
                  else if str_includes (message e) ''401'' then UNAUTHORIZED else INTERNAL)"
  by (simp_all add: api_prompt_catch_def assigned_kind_format status_res_status_json
        server_code_names_def)

lemma job_catch_kind:
  "assigned_kind (api_job_catch now e) =
     Some (if str_includes (message e) ''404'' then NOT_FOUND else INTERNAL)"
  "status (api_job_catch now e) =
     http_status (if str_includes (message e) ''404'' then NOT_FOUND else INTERNAL)"
  by (simp_all add: api_job_catch_def assigned_kind_format status_res_status_json
        server_code_names_def)

lemma prompt_and_wait_catch_kind:
  "assigned_kind (api_prompt_and_wait_catch now e) =
     Some (if str_includes (message e) ''timeout'' then TIMEOUT
           else if str_includes (message e) ''402'' then PAYMENT_REQUIRED else INTERNAL)"
  "status (api_prompt_and_wait_catch now e) =
     http_status (if str_includes (message e) ''timeout'' then TIMEOUT
                  else if str_includes (message e) ''402'' then PAYMENT_REQUIRED else INTERNAL)"
  by (simp_all add: api_prompt_and_wait_catch_def assigned_kind_format status_res_status_json
        server_code_names_def)

lemma internal_catch_kind:
  "assigned_kind (api_allowance_catch now e) = Some INTERNAL"
  "status (api_allowance_catch now e) = http_status INTERNAL"
  "assigned_kind (api_approve_catch now e) = Some INTERNAL"
  "status (api_approve_catch now e) = http_status INTERNAL"
  by (simp_all add: api_allowance_catch_def api_approve_catch_def assigned_kind_format
        status_res_status_json server_code_names_def)


subsection \<open>The limiter\<close>

lemma behind_limiter_over:
  "behind_limiter True started served =
     (res_status_json rate_limit_status (rate_limit_message started), [])"
  by (simp add: behind_limiter_def limiter_def)

lemma behind_limiter_within: "behind_limiter False started served = served"
  by (simp add: behind_limiter_def limiter_def)


lemma limited_answer:
  "status (res_status_json rate_limit_status (rate_limit_message started)) = 429"
  "error_code (body (res_status_json rate_limit_status (rate_limit_message started)))
     = JStr ''RATE_LIMIT_EXCEEDED''"
  by (simp_all add: rate_limit_status_def status_res_status_json body_res_status_json
        rate_limit_message_def error_code_def)

lemma follows_limited:
  "follows_table (res_status_json rate_limit_status (rate_limit_message started))"
  by (rule follows_tableI [where k = RATE_LIMITED and c = "''RATE_LIMIT_EXCEEDED''"])
     (simp_all add: limited_answer server_code_names_def)

lemma follows_behind_limiter:
  assumes "status (fst served) \<noteq> 200 \<Longrightarrow> follows_table (fst served)"
      and "status (fst (behind_limiter over_limit started served)) \<noteq> 200"
  shows "follows_table (fst (behind_limiter over_limit started served))"
proof (cases over_limit)
  case True
  then show ?thesis by (simp add: behind_limiter_over follows_limited)
next
  case False
  with assms show ?thesis by (simp add: behind_limiter_within)
qed


subsection \<open>The outcomes of each route of server.js\<close>

lemma api_prompt_cases:
  obtains (Invalid) r where "handleValidationErrors now (prompt_validators req) = Some r"
      and "api_prompt client now req = (r, [])"
  | (Ok) resp where "prompt_validators req = []"
      and "api_prompt client now req =
           (res_json (JObject resp),
            [CPrompt (prompt req) (walletAddress req) (destructure_default (xmtp req) (JBool False))])"
  | (Thrown) e where "prompt_validators req = []"
      and "c_prompt client (prompt req) (walletAddress req)
             (destructure_default (xmtp req) (JBool False)) = Inl e"
      and "api_prompt client now req =
           (api_prompt_catch now e,
            [CPrompt (prompt req) (walletAddress req) (destructure_default (xmtp req) (JBool False))])"
proof (cases "handleValidationErrors now (prompt_validators req)")
  case (Some r)
  then show ?thesis using Invalid by (simp add: api_prompt_def)
next
  case None
  then have v: "prompt_validators req = []" by (simp add: handleValidationErrors_None)
  show ?thesis
  proof (cases "c_prompt client (prompt req) (walletAddress req)
                  (destructure_default (xmtp req) (JBool False))")
    case (Inl e)
    with None v show ?thesis using Thrown by (simp add: api_prompt_def Let_def)
  next
    case (Inr resp)
    with None v show ?thesis using Ok by (simp add: api_prompt_def Let_def)
  qed
qed

lemma api_job_cases:
  obtains (Invalid) r where "handleValidationErrors now (job_validators req) = Some r"
      and "api_job client now req = (r, [])"
  | (Ok) st where "api_job client now req = (res_json (JObject st), [CGetJobStatus (jobId req)])"
  | (Thrown) e where "c_getJobStatus client (jobId req) = Inl e"
      and "api_job client now req = (api_job_catch now e, [CGetJobStatus (jobId req)])"
proof (cases "handleValidationErrors now (job_validators req)")
  case (Some r)
  then show ?thesis using Invalid by (simp add: api_job_def)
next
  case None
  show ?thesis
  proof (cases "c_getJobStatus client (jobId req)")
    case (Inl e)
    with None show ?thesis using Thrown by (simp add: api_job_def)
  next
    case (Inr st)
    with None show ?thesis using Ok by (simp add: api_job_def)
  qed
qed

lemma api_prompt_and_wait_cases:
  obtains (Invalid) r where "handleValidationErrors now (prompt_and_wait_validators req) = Some r"
      and "api_prompt_and_wait client now req = (r, [])"
  | (Ok) result where "prompt_and_wait_validators req = []"
      and "api_prompt_and_wait client now req =
           (res_json (JObject result), [CPromptAndWait (prompt_and_wait_args req)])"
  | (Thrown) e where "prompt_and_wait_validators req = []"
      and "c_promptAndWait client (prompt_and_wait_args req) = Inl e"
      and "api_prompt_and_wait client now req =
           (api_prompt_and_wait_catch now e, [CPromptAndWait (prompt_and_wait_args req)])"
proof (cases "handleValidationErrors now (prompt_and_wait_validators req)")
  case (Some r)
  then show ?thesis using Invalid by (simp add: api_prompt_and_wait_def)
next
  case None
  then have v: "prompt_and_wait_validators req = []" by (simp add: handleValidationErrors_None)
  show ?thesis
  proof (cases "c_promptAndWait client (prompt_and_wait_args req)")
    case (Inl e)
    with None v show ?thesis using Thrown by (simp add: api_prompt_and_wait_def Let_def)
  next
    case (Inr result)
    with None v show ?thesis using Ok by (simp add: api_prompt_and_wait_def Let_def)
  qed
qed

lemma api_allowance_cases:
  obtains (Ok) b where "api_allowance client now = (res_json b, [CCheckAllowance facilitatorAddress])"
  | (Thrown) e where
      "api_allowance client now = (api_allowance_catch now e, [CCheckAllowance facilitatorAddress])"
proof (cases "c_checkAllowance client facilitatorAddress")
  case (Inl e)
  then show ?thesis using Thrown by (simp add: api_allowance_def)
next
  case (Inr n)
  then show ?thesis using Ok by (simp add: api_allowance_def)
qed

lemma api_approve_cases:
  obtains (Invalid) r where "handleValidationErrors now (approve_validators req) = Some r"
      and "api_approve client now req = (r, [])"
  | (Ok) b where "approve_validators req = []"
      and "api_approve client now req =
           (res_json b, [CApprove (JStr facilitatorAddress) (AmountVal (approve_amount req))])"
  | (Thrown) e where "approve_validators req = []"
      and "api_approve client now req =
           (api_approve_catch now e,
            [CApprove (JStr facilitatorAddress) (AmountVal (approve_amount req))])"
proof (cases "handleValidationErrors now (approve_validators req)")
  case (Some r)
  then show ?thesis using Invalid by (simp add: api_approve_def)
next
  case None
  then have v: "approve_validators req = []" by (simp add: handleValidationErrors_None)
  show ?thesis
  proof (cases "c_approve client (JStr facilitatorAddress) (AmountVal (approve_amount req))")
    case (Inl e)
    with None v show ?thesis using Thrown by (simp add: api_approve_def Let_def)
  next
    case (Inr tx)
    with None v show ?thesis using Ok by (simp add: api_approve_def Let_def)
  qed
qed

lemma api_health_cases:
  obtains (Ok) b where "api_health client now up = (res_json b, [CCheckAllowance facilitatorAddress])"
  | (Thrown) e where
      "api_health client now up = (api_health_catch now up e, [CCheckAllowance facilitatorAddress])"
proof (cases "c_checkAllowance client facilitatorAddress")
  case (Inl e)
  then show ?thesis using Thrown by (simp add: api_health_def)
next
  case (Inr n)
  then show ?thesis using Ok by (simp add: api_health_def)
qed

subsection \<open>The outcomes of each proxy route\<close>

lemma mismatchI:
  "token = Some t \<Longrightarrow> t \<noteq> [] \<Longrightarrow> x_proxy_token req \<noteq> Some t \<Longrightarrow> proxy_token_mismatch token req"
  by (simp add: proxy_token_mismatch_def)

lemma bankr_prompt_cases:
  obtains (Unauthorized) "proxy_token_mismatch token req"
      and "bankr_prompt token client req = (res_status_json 401 (plain_error ''unauthorized''), [])"
  | (Invalid) "\<not> proxy_token_mismatch token req"
      and "\<not> truthy (prompt req) \<or> \<not> is_string (prompt req)"
      and "bankr_prompt token client req =
           (res_status_json 400 (plain_error ''prompt is required''), [])"
  | (Ok) result where "bankr_prompt token client req =
           (res_json (job_result_json result), [CPromptAndWait (bankr_prompt_args req)])"
  | (Thrown) e where "bankr_prompt token client req =
           (bankr_catch e, [CPromptAndWait (bankr_prompt_args req)])"
proof (cases "proxy_token_mismatch token req")
  case True
  then show ?thesis using Unauthorized by (simp add: bankr_prompt_def)
next
  case False
  show ?thesis
  proof (cases "\<not> truthy (prompt req) \<or> \<not> is_string (prompt req)")
    case True
    with False show ?thesis using Invalid by (simp add: bankr_prompt_def)
  next
    case ok: False
    show ?thesis
    proof (cases "c_promptAndWait client (bankr_prompt_args req)")
      case (Inl e)
      with False ok show ?thesis using Thrown by (simp add: bankr_prompt_def Let_def)
    next
      case (Inr result)
      with False ok show ?thesis using Ok by (simp add: bankr_prompt_def Let_def)
    qed
  qed
qed

lemma bankr_promptAndWait_cases:
  obtains (Unauthorized) "proxy_token_mismatch token req"
      and "bankr_promptAndWait token client req =
           (res_status_json 401 (plain_error ''unauthorized''), [])"
  | (Invalid) "\<not> proxy_token_mismatch token req"
      and "\<not> truthy (prompt req) \<or> \<not> is_string (prompt req)"
      and "bankr_promptAndWait token client req =
           (res_status_json 400 (plain_error ''prompt is required''), [])"
  | (Ok) result where "bankr_promptAndWait token client req =
           (res_json (job_result_json result), [CPromptAndWait (bankr_promptAndWait_args req)])"
  | (Thrown) e where "bankr_promptAndWait token client req =
           (bankr_catch e, [CPromptAndWait (bankr_promptAndWait_args req)])"
proof (cases "proxy_token_mismatch token req")
  case True
  then show ?thesis using Unauthorized by (simp add: bankr_promptAndWait_def)
next
  case False
  show ?thesis
  proof (cases "\<not> truthy (prompt req) \<or> \<not> is_string (prompt req)")
    case True
    with False show ?thesis using Invalid by (simp add: bankr_promptAndWait_def)
  next
    case ok: False
    show ?thesis
    proof (cases "c_promptAndWait client (bankr_promptAndWait_args req)")
      case (Inl e)
      with False ok show ?thesis using Thrown by (simp add: bankr_promptAndWait_def Let_def)
    next
      case (Inr result)
      with False ok show ?thesis using Ok by (simp add: bankr_promptAndWait_def Let_def)
    qed
  qed
qed

lemma bankr_approve_cases:
  obtains (Unauthorized) "proxy_token_mismatch token req"
      and "bankr_approve BigInt token client req =
           (res_status_json 401 (plain_error ''unauthorized''), [])"
  | (Invalid) "bankr_approve BigInt token client req =
           (res_status_json 400 (plain_error ''spender is required''), [])"
  | (Conversion) e where "bankr_approve BigInt token client req = (bankr_catch e, [])"
  | (Ok) b a where "bankr_approve_amount BigInt req = Inr a"
      and "bankr_approve BigInt token client req = (res_json b, [CApprove (spender req) a])"
  | (Thrown) e a where "bankr_approve_amount BigInt req = Inr a"
      and "bankr_approve BigInt token client req = (bankr_catch e, [CApprove (spender req) a])"
proof (cases "proxy_token_mismatch token req")
  case True
  then show ?thesis using Unauthorized by (simp add: bankr_approve_def)
next
  case False
  show ?thesis
  proof (cases "truthy (spender req)")
    case nospender: False
    with False show ?thesis using Invalid by (simp add: bankr_approve_def)
  next
    case True
    show ?thesis
    proof (cases "bankr_approve_amount BigInt req")
      case (Inl e)
      with False True show ?thesis using Conversion by (simp add: bankr_approve_def)
    next
      case (Inr a)
      show ?thesis
      proof (cases "c_approve client (spender req) a")
        case (Inl e)
        with False True Inr show ?thesis using Thrown by (simp add: bankr_approve_def)
      next
        case tx: (Inr txHash)
        with False True Inr show ?thesis using Ok by (simp add: bankr_approve_def)
      qed
    qed
  qed
qed

lemma bankr_approve_bnkr_cases:
  obtains (Unauthorized) "proxy_token_mismatch token req"
      and "bankr_approve_bnkr token client req =
           (res_status_json 401 (plain_error ''unauthorized''), [])"
  | (ApproveThrown) e where "bankr_approve_bnkr token client req =
           (bankr_catch e, [CApprove (JStr facilitatorAddress) (AmountBigInt maxUint256)])"
  | (AllowanceThrown) e where "bankr_approve_bnkr token client req =
           (bankr_catch e, [CApprove (JStr facilitatorAddress) (AmountBigInt maxUint256),
                            CCheckAllowance facilitatorAddress])"
  | (Ok) b where "bankr_approve_bnkr token client req =
           (res_json b, [CApprove (JStr facilitatorAddress) (AmountBigInt maxUint256),
                         CCheckAllowance facilitatorAddress])"
proof (cases "proxy_token_mismatch token req")
  case True
  then show ?thesis using Unauthorized by (simp add: bankr_approve_bnkr_def)
next
  case False
  show ?thesis
  proof (cases "c_approve client (JStr facilitatorAddress) (AmountBigInt maxUint256)")
    case (Inl e)
    with False show ?thesis using ApproveThrown by (simp add: bankr_approve_bnkr_def Let_def)
  next
    case (Inr txHash)
    show ?thesis
    proof (cases "c_checkAllowance client facilitatorAddress")
      case (Inl e)
      with False Inr show ?thesis using AllowanceThrown
        by (simp add: bankr_approve_bnkr_def Let_def)
    next
      case ok: (Inr n)
      with False Inr show ?thesis using Ok by (simp add: bankr_approve_bnkr_def Let_def)
    qed
  qed
qed

subsection \<open>Status and code, route by route\<close>

lemma api_prompt_follows:
  assumes "status (fst (api_prompt client now req)) \<noteq> 200"
  shows "follows_table (fst (api_prompt client now req))"
proof (cases rule: api_prompt_cases [of now req client])
  case (Invalid r)
  then show ?thesis by (simp add: follows_validation)
next
  case (Ok resp)
  with assms show ?thesis by (simp add: status_res_json)
next
  case (Thrown e)
  then show ?thesis by (simp add: follows_prompt_catch)
qed

lemma api_job_follows:
  assumes "status (fst (api_job client now req)) \<noteq> 200"
  shows "follows_table (fst (api_job client now req))"
proof (cases rule: api_job_cases [of now req client])
  case (Invalid r)
  then show ?thesis by (simp add: follows_validation)
next
  case (Ok resp)
  with assms show ?thesis by (simp add: status_res_json)
next
  case (Thrown e)
  then show ?thesis by (simp add: follows_job_catch)
qed

lemma api_prompt_and_wait_follows:
  assumes "status (fst (api_prompt_and_wait client now req)) \<noteq> 200"
  shows "follows_table (fst (api_prompt_and_wait client now req))"
proof (cases rule: api_prompt_and_wait_cases [of now req client])
  case (Invalid r)
  then show ?thesis by (simp add: follows_validation)
next
  case (Ok resp)
  with assms show ?thesis by (simp add: status_res_json)
next
  case (Thrown e)
  then show ?thesis by (simp add: follows_prompt_and_wait_catch)
qed

lemma api_allowance_follows:
  assumes "status (fst (api_allowance client now)) \<noteq> 200"
  shows "follows_table (fst (api_allowance client now))"
proof (cases rule: api_allowance_cases [of client now])
  case (Ok resp)
  with assms show ?thesis by (simp add: status_res_json)
next
  case (Thrown e)
  then show ?thesis by (simp add: follows_allowance_catch)
qed

lemma api_approve_follows:
  assumes "status (fst (api_approve client now req)) \<noteq> 200"
  shows "follows_table (fst (api_approve client now req))"
proof (cases rule: api_approve_cases [of now req client])
  case (Invalid r)
  then show ?thesis by (simp add: follows_validation)
next
  case (Ok resp)
  with assms show ?thesis by (simp add: status_res_json)
next
  case (Thrown e)
  then show ?thesis by (simp add: follows_approve_catch)
qed


lemma shape_validation: "handleValidationErrors now errs = Some r \<Longrightarrow> error_shape (body r)"
  by (simp add: handleValidationErrors_Some)

subsection \<open>Validation and validated numbers\<close>

lemma prompt_chain_missing:
  "prompt req = JUndefined \<or> prompt req = JStr [] \<Longrightarrow> prompt_chain req \<noteq> []"
  by (auto simp add: prompt_chain_def check_def isLength_def)


subsection \<open>The loop\<close>









subsection \<open>Sample runs\<close>

lemma hi_valid:
  "prompt_validators hi_request = []"
  "prompt_and_wait_validators hi_request = []"
  by (simp_all add: prompt_validators_def prompt_and_wait_validators_def prompt_chain_def
        walletAddress_chain_def xmtp_chain_def timeout_chain_def interval_chain_def
        optional_def check_def isString_def isLength_def blank_request_def hi_request_def)



lemma leading_zero_timeout:
  "prompt_and_wait_validators (hi_request\<lparr>timeout := JStr ''05000''\<rparr>) = []"
  "arg_maxAttempts (prompt_and_wait_args (hi_request\<lparr>timeout := JStr ''05000''\<rparr>)) = JNum 2"
  by (simp_all add: prompt_and_wait_validators_def prompt_chain_def
        walletAddress_chain_def xmtp_chain_def timeout_chain_def interval_chain_def
        optional_def check_def isString_def isLength_def isInt_def blank_request_def
        hi_request_def parse_nat_def is_digit_def digits_val_def digit_val_def
        prompt_and_wait_args_def Let_def math_floor_div_def to_number_def)





lemma never_terminal_run:
  "submitAndAwait \<lparr>pc_interval = 0, pc_maxAttempts = 3, pc_timeout = 5000\<rparr>
     (Inr Pending) (\<lambda>k. Inr Processing) (\<lambda>k. 0) = (TimedOut, 3, 0)"
  by (simp add: submitAndAwait_def poll_loop.simps Let_def)

lemma two_checks_run:
  "submitAndAwait \<lparr>pc_interval = 2000, pc_maxAttempts = 150, pc_timeout = 300000\<rparr>
     (Inr Pending) (\<lambda>k. if k = 0 then Inr Processing else Inr Completed) (\<lambda>k. 0)
     = (Done Completed, 2, 4000)"
  by (simp add: submitAndAwait_def poll_loop.simps Let_def)

lemma startup_listens:
  "server_startup sample_new_client
     [''BANKR_API_KEY'' \<mapsto> ''k'', ''PRIVATE_KEY'' \<mapsto> ''p'', ''WALLET_ADDRESS'' \<mapsto> ''w'']
     = Listening (JNum 3000)"
  "bankr_prompt_startup sample_new_client
     [''BANKR_API_KEY'' \<mapsto> ''k'', ''BANKR_PRIVATE_KEY'' \<mapsto> ''p''] = Listening (JNum 3000)"
  by (simp_all add: server_startup_def missingEnvVars_def requiredEnvVars_def env_missing_def
        sample_new_client_def bankr_prompt_startup_def proxy_startup_def)

lemma blank_invalid:
  "prompt blank_request = JUndefined"
  "amount blank_request = JUndefined"
  "x_proxy_token blank_request = None"
  by (simp_all add: blank_request_def)

lemma boom_prompt:
  "api_prompt (throwing_client ''boom'') ''t'' hi_request =
     (api_prompt_catch ''t'' (JsError ''boom''), [CPrompt (JStr ''hi'') JUndefined (JBool False)])"
  by (simp add: api_prompt_def handleValidationErrors_def hi_valid throwing_client_def Let_def)
     (simp add: hi_request_def blank_request_def)

lemma boom_prompt_catch:
  "status (api_prompt_catch ''t'' (JsError ''boom'')) = 500"
  "error_code (body (api_prompt_catch ''t'' (JsError ''boom''))) = JStr ''INTERNAL_ERROR''"
  by (simp_all add: api_prompt_catch_def status_res_status_json body_res_status_json
        error_code_format)

section \<open>The claims\<close>

subsection \<open>C1: the bounds of the polling loop\<close>




subsection \<open>C2: status and error code\<close>




subsection \<open>C3: classification is total\<close>

text \<open>
  Claim C3 says that every raw downstream error, one signalling 402 among them, is
  given exactly one error kind.  The proxy files give none: when \<open>promptAndWait\<close>
  throws an error signalling 402, \<open>POST /api/bankr/prompt\<close> answers 500 with the raw
  message and no code, so the error is neither classified as PAYMENT_REQUIRED nor as
  any other kind.
\<close>

theorem proxy_error_has_no_kind:
  "c_promptAndWait (throwing_client ''402 Payment Required'') (bankr_prompt_args hi_request)
     = Inl (JsError ''402 Payment Required'') \<and>
   str_includes ''402 Payment Required'' ''402'' \<and>
   status (fst (bankr_prompt None (throwing_client ''402 Payment Required'') hi_request)) = 500 \<and>
   body (fst (bankr_prompt None (throwing_client ''402 Payment Required'') hi_request))
     = plain_error ''402 Payment Required'' \<and>
   error_code (body (fst (bankr_prompt None (throwing_client ''402 Payment Required'')
     hi_request))) = JUndefined \<and>
   assigned_kind (fst (bankr_prompt None (throwing_client ''402 Payment Required'') hi_request))
     = None"
proof -
  have p: "bankr_prompt None (throwing_client ''402 Payment Required'') hi_request =
             (bankr_catch (JsError ''402 Payment Required''),
              [CPromptAndWait (bankr_prompt_args hi_request)])"
    by (simp add: bankr_prompt_def proxy_token_mismatch_def throwing_client_def Let_def)
       (simp add: hi_request_def blank_request_def)
  show ?thesis
    unfolding p
    by (simp add: bankr_catch_def status_res_status_json body_res_status_json
          error_code_plain assigned_kind_plain throwing_client_def)
qed

text \<open>
  Claim C3, amended.  On the business routes of server.js error classification is
  total.  Every answer that is not a 200 (the limiter's and the validators' included)
  names exactly one error kind in \<open>error.code\<close> and has that kind's status.  A
  downstream error thrown to a route is answered by the first pattern its message
  contains: on \<open>/api/prompt\<close> 402 gives PAYMENT_REQUIRED, else 401 gives UNAUTHORIZED;
  on \<open>/api/job\<close> 404 gives NOT_FOUND; on \<open>/api/prompt-and-wait\<close> timeout gives
  TIMEOUT, else 402 gives PAYMENT_REQUIRED; an error that matches none of its route's
  patterns, and every error on the allowance and approve routes, is answered as
  INTERNAL (500).  The four routes of the proxy files answer every error thrown by a
  downstream call or by the conversion of the amount with 500 and
  \<open>{ error: message }\<close>, naming no kind.
\<close>

theorem error_classification_total:
  "(status (fst (behind_limiter over_limit started (api_prompt client now req))) \<noteq> 200 \<longrightarrow>
      (\<exists>k. assigned_kind (fst (behind_limiter over_limit started (api_prompt client now req)))
              = Some k \<and>
           status (fst (behind_limiter over_limit started (api_prompt client now req)))
              = http_status k)) \<and>
   (status (fst (behind_limiter over_limit started (api_job client now req))) \<noteq> 200 \<longrightarrow>
      (\<exists>k. assigned_kind (fst (behind_limiter over_limit started (api_job client now req)))
              = Some k \<and>
           status (fst (behind_limiter over_limit started (api_job client now req)))
              = http_status k)) \<and>
   (status (fst (behind_limiter over_limit started (api_prompt_and_wait client now req)))
      \<noteq> 200 \<longrightarrow>
      (\<exists>k. assigned_kind
              (fst (behind_limiter over_limit started (api_prompt_and_wait client now req)))
              = Some k \<and>
           status (fst (behind_limiter over_limit started (api_prompt_and_wait client now req)))
              = http_status k)) \<and>
   (status (fst (behind_limiter over_limit started (api_allowance client now))) \<noteq> 200 \<longrightarrow>
      (\<exists>k. assigned_kind (fst (behind_limiter over_limit started (api_allowance client now)))
              = Some k \<and>
           status (fst (behind_limiter over_limit started (api_allowance client now)))
              = http_status k)) \<and>
   (status (fst (behind_limiter over_limit started (api_approve client now req))) \<noteq> 200 \<longrightarrow>
      (\<exists>k. assigned_kind (fst (behind_limiter over_limit started (api_approve client now req)))
              = Some k \<and>
           status (fst (behind_limiter over_limit started (api_approve client now req)))
              = http_status k)) \<and>
   (prompt_validators req = [] \<and>
    c_prompt client (prompt req) (walletAddress req)
      (destructure_default (xmtp req) (JBool False)) = Inl e \<longrightarrow>
      assigned_kind (fst (behind_limiter False started (api_prompt client now req))) =
        Some (if str_includes (message e) ''402'' then PAYMENT_REQUIRED
              else if str_includes (message e) ''401'' then UNAUTHORIZED else INTERNAL) \<and>
      status (fst (behind_limiter False started (api_prompt client now req))) =
        http_status (if str_includes (message e) ''402'' then PAYMENT_REQUIRED
                     else if str_includes (message e) ''401'' then UNAUTHORIZED else INTERNAL)) \<and>
   (job_validators req = [] \<and> c_getJobStatus client (jobId req) = Inl e \<longrightarrow>
      assigned_kind (fst (behind_limiter False started (api_job client now req))) =
        Some (if str_includes (message e) ''404'' then NOT_FOUND else INTERNAL) \<and>
      status (fst (behind_limiter False started (api_job client now req))) =
        http_status (if str_includes (message e) ''404'' then NOT_FOUND else INTERNAL)) \<and>
   (prompt_and_wait_validators req = [] \<and>
    c_promptAndWait client (prompt_and_wait_args req) = Inl e \<longrightarrow>
      assigned_kind (fst (behind_limiter False started (api_prompt_and_wait client now req))) =
        Some (if str_includes (message e) ''timeout'' then TIMEOUT
              else if str_includes (message e) ''402'' then PAYMENT_REQUIRED else INTERNAL) \<and>
      status (fst (behind_limiter False started (api_prompt_and_wait client now req))) =
        http_status (if str_includes (message e) ''timeout'' then TIMEOUT
                     else if str_includes (message e) ''402'' then PAYMENT_REQUIRED
                     else INTERNAL)) \<and>
   (c_checkAllowance client facilitatorAddress = Inl e \<longrightarrow>
      assigned_kind (fst (behind_limiter False started (api_allowance client now)))
        = Some INTERNAL \<and>
      status (fst (behind_limiter False started (api_allowance client now)))
        = http_status INTERNAL) \<and>
   (approve_validators req = [] \<and>
    c_approve client (JStr facilitatorAddress) (AmountVal (approve_amount req)) = Inl e \<longrightarrow>
      assigned_kind (fst (behind_limiter False started (api_approve client now req)))
        = Some INTERNAL \<and>
      status (fst (behind_limiter False started (api_approve client now req)))
        = http_status INTERNAL) \<and>
   (\<not> proxy_token_mismatch token req \<and> truthy (prompt req) \<and> is_string (prompt req) \<and>
    c_promptAndWait client (bankr_prompt_args req) = Inl e \<longrightarrow>
      fst (bankr_prompt token client req) = res_status_json 500 (plain_error (message e)) \<and>
      assigned_kind (fst (bankr_prompt token client req)) = None) \<and>
   (\<not> proxy_token_mismatch token req \<and> truthy (prompt req) \<and> is_string (prompt req) \<and>
    c_promptAndWait client (bankr_promptAndWait_args req) = Inl e \<longrightarrow>
      fst (bankr_promptAndWait token client req)
        = res_status_json 500 (plain_error (message e)) \<and>
      assigned_kind (fst (bankr_promptAndWait token client req)) = None) \<and>
   (\<not> proxy_token_mismatch token req \<and> truthy (spender req) \<and>
    bankr_approve_amount BigInt req = Inr a \<and> c_approve client (spender req) a = Inl e \<longrightarrow>
      fst (bankr_approve BigInt token client req)
        = res_status_json 500 (plain_error (message e)) \<and>
      assigned_kind (fst (bankr_approve BigInt token client req)) = None) \<and>
   (\<not> proxy_token_mismatch token req \<and> truthy (spender req) \<and>
    bankr_approve_amount BigInt req = Inl e \<longrightarrow>
      fst (bankr_approve BigInt token client req)
        = res_status_json 500 (plain_error (message e)) \<and>
      assigned_kind (fst (bankr_approve BigInt token client req)) = None) \<and>
   (\<not> proxy_token_mismatch token req \<and>
    c_approve client (JStr facilitatorAddress) (AmountBigInt maxUint256) = Inl e \<longrightarrow>
      fst (bankr_approve_bnkr token client req)
        = res_status_json 500 (plain_error (message e)) \<and>
      assigned_kind (fst (bankr_approve_bnkr token client req)) = None) \<and>
   (\<not> proxy_token_mismatch token req \<and>
    c_approve client (JStr facilitatorAddress) (AmountBigInt maxUint256) = Inr tx \<and>
    c_checkAllowance client facilitatorAddress = Inl e \<longrightarrow>
      fst (bankr_approve_bnkr token client req)
        = res_status_json 500 (plain_error (message e)) \<and>
      assigned_kind (fst (bankr_approve_bnkr token client req)) = None)"
proof (intro conjI impI)
  assume "status (fst (behind_limiter over_limit started (api_prompt client now req))) \<noteq> 200"
  then have "follows_table (fst (behind_limiter over_limit started (api_prompt client now req)))"
    by (rule follows_behind_limiter [rotated]) (rule api_prompt_follows)
  then show "\<exists>k. assigned_kind (fst (behind_limiter over_limit started
                    (api_prompt client now req))) = Some k \<and>
           status (fst (behind_limiter over_limit started (api_prompt client now req)))
              = http_status k"
    by (rule follows_assigned)
next
  assume "status (fst (behind_limiter over_limit started (api_job client now req))) \<noteq> 200"
  then have "follows_table (fst (behind_limiter over_limit started (api_job client now req)))"
    by (rule follows_behind_limiter [rotated]) (rule api_job_follows)
  then show "\<exists>k. assigned_kind (fst (behind_limiter over_limit started
                    (api_job client now req))) = Some k \<and>
           status (fst (behind_limiter over_limit started (api_job client now req)))
              = http_status k"
    by (rule follows_assigned)
next
  assume "status (fst (behind_limiter over_limit started (api_prompt_and_wait client now req)))
            \<noteq> 200"
  then have "follows_table
               (fst (behind_limiter over_limit started (api_prompt_and_wait client now req)))"
    by (rule follows_behind_limiter [rotated]) (rule api_prompt_and_wait_follows)
  then show "\<exists>k. assigned_kind
              (fst (behind_limiter over_limit started (api_prompt_and_wait client now req)))
              = Some k \<and>
           status (fst (behind_limiter over_limit started (api_prompt_and_wait client now req)))
              = http_status k"
    by (rule follows_assigned)
next
  assume "status (fst (behind_limiter over_limit started (api_allowance client now))) \<noteq> 200"
  then have "follows_table (fst (behind_limiter over_limit started (api_allowance client now)))"
    by (rule follows_behind_limiter [rotated]) (rule api_allowance_follows)
  then show "\<exists>k. assigned_kind (fst (behind_limiter over_limit started
                    (api_allowance client now))) = Some k \<and>
           status (fst (behind_limiter over_limit started (api_allowance client now)))
              = http_status k"
    by (rule follows_assigned)
next
  assume "status (fst (behind_limiter over_limit started (api_approve client now req))) \<noteq> 200"
  then have "follows_table (fst (behind_limiter over_limit started (api_approve client now req)))"
    by (rule follows_behind_limiter [rotated]) (rule api_approve_follows)
  then show "\<exists>k. assigned_kind (fst (behind_limiter over_limit started
                    (api_approve client now req))) = Some k \<and>
           status (fst (behind_limiter over_limit started (api_approve client now req)))
              = http_status k"
    by (rule follows_assigned)
next
  assume h: "prompt_validators req = [] \<and>
    c_prompt client (prompt req) (walletAddress req)
      (destructure_default (xmtp req) (JBool False)) = Inl e"
  then have r: "fst (behind_limiter False started (api_prompt client now req))
                  = api_prompt_catch now e"
    by (simp add: behind_limiter_within api_prompt_def handleValidationErrors_def Let_def)
  show "assigned_kind (fst (behind_limiter False started (api_prompt client now req))) =
        Some (if str_includes (message e) ''402'' then PAYMENT_REQUIRED
              else if str_includes (message e) ''401'' then UNAUTHORIZED else INTERNAL)"
    unfolding r by (rule prompt_catch_kind)
  show "status (fst (behind_limiter False started (api_prompt client now req))) =
        http_status (if str_includes (message e) ''402'' then PAYMENT_REQUIRED
                     else if str_includes (message e) ''401'' then UNAUTHORIZED else INTERNAL)"
    unfolding r by (rule prompt_catch_kind)
next
  assume h: "job_validators req = [] \<and> c_getJobStatus client (jobId req) = Inl e"
  then have r: "fst (behind_limiter False started (api_job client now req)) = api_job_catch now e"
    by (simp add: behind_limiter_within api_job_def handleValidationErrors_def)
  show "assigned_kind (fst (behind_limiter False started (api_job client now req))) =
        Some (if str_includes (message e) ''404'' then NOT_FOUND else INTERNAL)"
    unfolding r by (rule job_catch_kind)
  show "status (fst (behind_limiter False started (api_job client now req))) =
        http_status (if str_includes (message e) ''404'' then NOT_FOUND else INTERNAL)"
    unfolding r by (rule job_catch_kind)
next
  assume h: "prompt_and_wait_validators req = [] \<and>
    c_promptAndWait client (prompt_and_wait_args req) = Inl e"
  then have r: "fst (behind_limiter False started (api_prompt_and_wait client now req))
                  = api_prompt_and_wait_catch now e"
    by (simp add: behind_limiter_within api_prompt_and_wait_def handleValidationErrors_def
          Let_def)
  show "assigned_kind (fst (behind_limiter False started (api_prompt_and_wait client now req))) =
        Some (if str_includes (message e) ''timeout'' then TIMEOUT
              else if str_includes (message e) ''402'' then PAYMENT_REQUIRED else INTERNAL)"
    unfolding r by (rule prompt_and_wait_catch_kind)
  show "status (fst (behind_limiter False started (api_prompt_and_wait client now req))) =
        http_status (if str_includes (message e) ''timeout'' then TIMEOUT
                     else if str_includes (message e) ''402'' then PAYMENT_REQUIRED
                     else INTERNAL)"
    unfolding r by (rule prompt_and_wait_catch_kind)
next
  assume h: "c_checkAllowance client facilitatorAddress = Inl e"
  then have r: "fst (behind_limiter False started (api_allowance client now))
                  = api_allowance_catch now e"
    by (simp add: behind_limiter_within api_allowance_def)
  show "assigned_kind (fst (behind_limiter False started (api_allowance client now)))
        = Some INTERNAL"
    and "status (fst (behind_limiter False started (api_allowance client now)))
        = http_status INTERNAL"
    unfolding r by (rule internal_catch_kind)+
next
  assume h: "approve_validators req = [] \<and>
    c_approve client (JStr facilitatorAddress) (AmountVal (approve_amount req)) = Inl e"
  then have r: "fst (behind_limiter False started (api_approve client now req))
                  = api_approve_catch now e"
    by (simp add: behind_limiter_within api_approve_def handleValidationErrors_def Let_def)
  show "assigned_kind (fst (behind_limiter False started (api_approve client now req)))
        = Some INTERNAL"
    and "status (fst (behind_limiter False started (api_approve client now req)))
        = http_status INTERNAL"
    unfolding r by (rule internal_catch_kind)+
next
  assume h: "\<not> proxy_token_mismatch token req \<and> truthy (prompt req) \<and> is_string (prompt req) \<and>
    c_promptAndWait client (bankr_prompt_args req) = Inl e"
  then show r: "fst (bankr_prompt token client req) = res_status_json 500 (plain_error (message e))"
    by (simp add: bankr_prompt_def Let_def bankr_catch_def)
  show "assigned_kind (fst (bankr_prompt token client req)) = None"
    unfolding r by (rule assigned_kind_plain)
next
  assume h: "\<not> proxy_token_mismatch token req \<and> truthy (prompt req) \<and> is_string (prompt req) \<and>
    c_promptAndWait client (bankr_promptAndWait_args req) = Inl e"
  then show r: "fst (bankr_promptAndWait token client req)
                  = res_status_json 500 (plain_error (message e))"
    by (simp add: bankr_promptAndWait_def Let_def bankr_catch_def)
  show "assigned_kind (fst (bankr_promptAndWait token client req)) = None"
    unfolding r by (rule assigned_kind_plain)
next
  assume h: "\<not> proxy_token_mismatch token req \<and> truthy (spender req) \<and>
    bankr_approve_amount BigInt req = Inr a \<and> c_approve client (spender req) a = Inl e"
  then show r: "fst (bankr_approve BigInt token client req)
                  = res_status_json 500 (plain_error (message e))"
    by (simp add: bankr_approve_def bankr_catch_def)
  show "assigned_kind (fst (bankr_approve BigInt token client req)) = None"
    unfolding r by (rule assigned_kind_plain)
next
  assume h: "\<not> proxy_token_mismatch token req \<and> truthy (spender req) \<and>
    bankr_approve_amount BigInt req = Inl e"
  then show r: "fst (bankr_approve BigInt token client req)
                  = res_status_json 500 (plain_error (message e))"
    by (simp add: bankr_approve_def bankr_catch_def)
  show "assigned_kind (fst (bankr_approve BigInt token client req)) = None"
    unfolding r by (rule assigned_kind_plain)
next
  assume h: "\<not> proxy_token_mismatch token req \<and>
    c_approve client (JStr facilitatorAddress) (AmountBigInt maxUint256) = Inl e"
  then show r: "fst (bankr_approve_bnkr token client req)
                  = res_status_json 500 (plain_error (message e))"
    by (simp add: bankr_approve_bnkr_def Let_def bankr_catch_def)
  show "assigned_kind (fst (bankr_approve_bnkr token client req)) = None"
    unfolding r by (rule assigned_kind_plain)
next
  assume h: "\<not> proxy_token_mismatch token req \<and>
    c_approve client (JStr facilitatorAddress) (AmountBigInt maxUint256) = Inr tx \<and>
    c_checkAllowance client facilitatorAddress = Inl e"
  then show r: "fst (bankr_approve_bnkr token client req)
                  = res_status_json 500 (plain_error (message e))"
    by (simp add: bankr_approve_bnkr_def Let_def bankr_catch_def)
  show "assigned_kind (fst (bankr_approve_bnkr token client req)) = None"
    unfolding r by (rule assigned_kind_plain)
qed

theorem error_classification_total_witness:
  "prompt_validators hi_request = [] \<and>
   c_prompt (throwing_client ''boom'') (prompt hi_request) (walletAddress hi_request)
     (destructure_default (xmtp hi_request) (JBool False)) = Inl (JsError ''boom'') \<and>
   assigned_kind (fst (behind_limiter False ''t0''
     (api_prompt (throwing_client ''boom'') ''t'' hi_request))) = Some INTERNAL \<and>
   status (fst (behind_limiter False ''t0''
     (api_prompt (throwing_client ''boom'') ''t'' hi_request))) = 500 \<and>
   c_prompt (throwing_client ''HTTP 402'') (prompt hi_request) (walletAddress hi_request)
     (destructure_default (xmtp hi_request) (JBool False)) = Inl (JsError ''HTTP 402'') \<and>
   assigned_kind (fst (behind_limiter False ''t0''
     (api_prompt (throwing_client ''HTTP 402'') ''t'' hi_request))) = Some PAYMENT_REQUIRED \<and>
   status (fst (behind_limiter False ''t0''
     (api_prompt (throwing_client ''HTTP 402'') ''t'' hi_request))) = 402"
proof -
  have v: "prompt_validators hi_request = []" by (rule hi_valid)
  have c: "c_prompt (throwing_client ''boom'') (prompt hi_request) (walletAddress hi_request)
     (destructure_default (xmtp hi_request) (JBool False)) = Inl (JsError ''boom'')"
    and d: "c_prompt (throwing_client ''HTTP 402'') (prompt hi_request)
     (walletAddress hi_request)
     (destructure_default (xmtp hi_request) (JBool False)) = Inl (JsError ''HTTP 402'')"
    by (simp_all add: throwing_client_def)
  note a = error_classification_total [where client = "throwing_client ''boom''"
      and now = "''t''" and req = hi_request and e = "JsError ''boom''" and started = "''t0''"]
  note b = error_classification_total [where client = "throwing_client ''HTTP 402''"
      and now = "''t''" and req = hi_request and e = "JsError ''HTTP 402''" and started = "''t0''"]
  from a v c have "assigned_kind (fst (behind_limiter False ''t0''
     (api_prompt (throwing_client ''boom'') ''t'' hi_request))) = Some INTERNAL"
    and "status (fst (behind_limiter False ''t0''
     (api_prompt (throwing_client ''boom'') ''t'' hi_request))) = 500"
    by simp_all
  moreover from b v d have "assigned_kind (fst (behind_limiter False ''t0''
     (api_prompt (throwing_client ''HTTP 402'') ''t'' hi_request))) = Some PAYMENT_REQUIRED"
    and "status (fst (behind_limiter False ''t0''
     (api_prompt (throwing_client ''HTTP 402'') ''t'' hi_request))) = 402"
    by simp_all
  ultimately show ?thesis using v c d by simp
qed

subsection \<open>C4: the default amount of an approval\<close>




subsection \<open>C5: the proxy token\<close>

text \<open>
  Claim C5 says that, with a shared secret configured, every business route answers a
  request without the right \<open>x-proxy-token\<close> with 401 before anything else.  The routes
  of server.js have no such check: the file never reads the secret or the header.  A
  request without the header reaches the downstream call and is answered 200.
\<close>

theorem server_has_no_proxy_gate:
  "x_proxy_token hi_request = None \<and>
   status (fst (api_prompt returning_client ''t'' hi_request)) = 200 \<and>
   snd (api_prompt returning_client ''t'' hi_request)
     = [CPrompt (JStr ''hi'') JUndefined (JBool False)]"
  by (simp add: api_prompt_def handleValidationErrors_def hi_valid returning_client_def
        Let_def status_res_json)
     (simp add: hi_request_def blank_request_def)

text \<open>
  Claim C5, amended.  In the two proxy files, when the secret is configured (set and
  not empty), each of the four \<open>/api/bankr\<close> routes answers a request whose
  \<open>x-proxy-token\<close> header is absent or different with 401 \<open>unauthorized\<close> and makes no
  downstream call.  The routes of server.js have no such gate.
\<close>

theorem proxy_token_gate:
  assumes "token = Some t" and "t \<noteq> []" and "x_proxy_token req \<noteq> Some t"
  shows "bankr_prompt token client req = (res_status_json 401 (plain_error ''unauthorized''), []) \<and>
         bankr_approve BigInt token client req =
           (res_status_json 401 (plain_error ''unauthorized''), []) \<and>
         bankr_approve_bnkr token client req =
           (res_status_json 401 (plain_error ''unauthorized''), []) \<and>
         bankr_promptAndWait token client req =
           (res_status_json 401 (plain_error ''unauthorized''), [])"
proof -
  from assms have "proxy_token_mismatch token req" by (rule mismatchI)
  then show ?thesis
    by (simp add: bankr_prompt_def bankr_approve_def bankr_approve_bnkr_def
          bankr_promptAndWait_def)
qed

theorem proxy_token_gate_witness:
  "x_proxy_token blank_request \<noteq> Some ''s3cret'' \<and>
   bankr_prompt (Some ''s3cret'') returning_client blank_request =
     (res_status_json 401 (plain_error ''unauthorized''), []) \<and>
   bankr_approve sample_BigInt (Some ''s3cret'') returning_client blank_request =
     (res_status_json 401 (plain_error ''unauthorized''), []) \<and>
   bankr_approve_bnkr (Some ''s3cret'') returning_client blank_request =
     (res_status_json 401 (plain_error ''unauthorized''), []) \<and>
   bankr_promptAndWait (Some ''s3cret'') returning_client blank_request =
     (res_status_json 401 (plain_error ''unauthorized''), [])"
proof -
  have a: "Some ''s3cret'' = Some ''s3cret''" by simp
  have b: "''s3cret'' \<noteq> []" by simp
  have c: "x_proxy_token blank_request \<noteq> Some ''s3cret''" by (simp add: blank_invalid)
  from proxy_token_gate [OF a b c, of returning_client sample_BigInt] c show ?thesis
    by simp
qed

subsection \<open>C6: validation comes before submission\<close>

text \<open>
  Claim C6 says that a prompt request that fails validation is answered 400 with the
  code \<open>VALIDATION_ERROR\<close>.  In the proxy files the answer to a missing prompt is 400
  with the body \<open>{ error: "prompt is required" }\<close>, which has no code.
\<close>

theorem proxy_validation_has_no_code:
  "prompt blank_request = JUndefined \<and>
   status (fst (bankr_prompt None returning_client blank_request)) = 400 \<and>
   body (fst (bankr_prompt None returning_client blank_request))
     = plain_error ''prompt is required'' \<and>
   error_code (body (fst (bankr_prompt None returning_client blank_request)))
     \<noteq> JStr ''VALIDATION_ERROR''"
  by (simp add: bankr_prompt_def proxy_token_mismatch_def blank_invalid
        status_res_status_json body_res_status_json error_code_plain)

text \<open>
  Claim C6, amended.  Within the rate limit, a request to \<open>POST /api/prompt\<close> or
  \<open>POST /api/prompt-and-wait\<close> of server.js whose body fails a validator is answered
  400 with the code \<open>VALIDATION_ERROR\<close>; over the limit every request is answered 429
  by the limiter; in neither case is a downstream call made, and a downstream call is
  only made within the limit and after every validator has passed.  A missing or empty
  prompt fails validation.  In the proxy files a request that passes the token gate and
  whose prompt is missing, empty or not a string is answered 400 with
  \<open>{ error: "prompt is required" }\<close> and no downstream call is made.
\<close>

theorem validation_before_submission:
  "(\<not> over_limit \<and> prompt_validators req \<noteq> [] \<longrightarrow>
      status (fst (behind_limiter over_limit started (api_prompt client now req))) = 400 \<and>
      error_code (body (fst (behind_limiter over_limit started (api_prompt client now req))))
        = JStr ''VALIDATION_ERROR'' \<and>
      snd (behind_limiter over_limit started (api_prompt client now req)) = []) \<and>
   (\<not> over_limit \<and> prompt_and_wait_validators req \<noteq> [] \<longrightarrow>
      status (fst (behind_limiter over_limit started (api_prompt_and_wait client now req)))
        = 400 \<and>
      error_code
        (body (fst (behind_limiter over_limit started (api_prompt_and_wait client now req))))
        = JStr ''VALIDATION_ERROR'' \<and>
      snd (behind_limiter over_limit started (api_prompt_and_wait client now req)) = []) \<and>
   (over_limit \<longrightarrow>
      status (fst (behind_limiter over_limit started (api_prompt client now req))) = 429 \<and>
      snd (behind_limiter over_limit started (api_prompt client now req)) = [] \<and>
      status (fst (behind_limiter over_limit started (api_prompt_and_wait client now req)))
        = 429 \<and>
      snd (behind_limiter over_limit started (api_prompt_and_wait client now req)) = []) \<and>
   (snd (behind_limiter over_limit started (api_prompt client now req)) \<noteq> [] \<longrightarrow>
      \<not> over_limit \<and> prompt_validators req = []) \<and>
   (snd (behind_limiter over_limit started (api_prompt_and_wait client now req)) \<noteq> [] \<longrightarrow>
      \<not> over_limit \<and> prompt_and_wait_validators req = []) \<and>
   (prompt req = JUndefined \<or> prompt req = JStr [] \<longrightarrow>
      prompt_validators req \<noteq> [] \<and> prompt_and_wait_validators req \<noteq> []) \<and>
   (\<not> proxy_token_mismatch token req \<and> (\<not> truthy (prompt req) \<or> \<not> is_string (prompt req)) \<longrightarrow>
      bankr_prompt token client req =
        (res_status_json 400 (plain_error ''prompt is required''), []) \<and>
      bankr_promptAndWait token client req =
        (res_status_json 400 (plain_error ''prompt is required''), []))"
proof (intro conjI impI)
  assume "\<not> over_limit \<and> prompt_validators req \<noteq> []"
  then have o: "\<not> over_limit" and v: "prompt_validators req \<noteq> []" by simp_all
  from v obtain r where r: "handleValidationErrors now (prompt_validators req) = Some r"
    by (simp add: handleValidationErrors_def)
  with o have a: "behind_limiter over_limit started (api_prompt client now req) = (r, [])"
    by (simp add: behind_limiter_within api_prompt_def)
  from r a show "status (fst (behind_limiter over_limit started (api_prompt client now req)))
                   = 400"
    and "error_code (body (fst (behind_limiter over_limit started (api_prompt client now req))))
           = JStr ''VALIDATION_ERROR''"
    and "snd (behind_limiter over_limit started (api_prompt client now req)) = []"
    by (simp_all add: handleValidationErrors_Some)
next
  assume "\<not> over_limit \<and> prompt_and_wait_validators req \<noteq> []"
  then have o: "\<not> over_limit" and v: "prompt_and_wait_validators req \<noteq> []" by simp_all
  from v obtain r where r: "handleValidationErrors now (prompt_and_wait_validators req) = Some r"
    by (simp add: handleValidationErrors_def)
  with o have a: "behind_limiter over_limit started (api_prompt_and_wait client now req)
                    = (r, [])"
    by (simp add: behind_limiter_within api_prompt_and_wait_def)
  from r a
  show "status (fst (behind_limiter over_limit started (api_prompt_and_wait client now req)))
          = 400"
    and "error_code
           (body (fst (behind_limiter over_limit started (api_prompt_and_wait client now req))))
           = JStr ''VALIDATION_ERROR''"
    and "snd (behind_limiter over_limit started (api_prompt_and_wait client now req)) = []"
    by (simp_all add: handleValidationErrors_Some)
next
  assume over_limit
  then show "status (fst (behind_limiter over_limit started (api_prompt client now req))) = 429"
    and "snd (behind_limiter over_limit started (api_prompt client now req)) = []"
    and "status (fst (behind_limiter over_limit started (api_prompt_and_wait client now req)))
           = 429"
    and "snd (behind_limiter over_limit started (api_prompt_and_wait client now req)) = []"
    by (simp_all add: behind_limiter_over limited_answer)
next
  assume n: "snd (behind_limiter over_limit started (api_prompt client now req)) \<noteq> []"
  then show o: "\<not> over_limit" by (cases over_limit) (simp_all add: behind_limiter_over)
  with n have "snd (api_prompt client now req) \<noteq> []" by (simp add: behind_limiter_within)
  then show "prompt_validators req = []"
    by (cases rule: api_prompt_cases [of now req client]) simp_all
next
  assume n: "snd (behind_limiter over_limit started (api_prompt_and_wait client now req)) \<noteq> []"
  then show o: "\<not> over_limit" by (cases over_limit) (simp_all add: behind_limiter_over)
  with n have "snd (api_prompt_and_wait client now req) \<noteq> []"
    by (simp add: behind_limiter_within)
  then show "prompt_and_wait_validators req = []"
    by (cases rule: api_prompt_and_wait_cases [of now req client]) simp_all
next
  assume "prompt req = JUndefined \<or> prompt req = JStr []"
  then have "prompt_chain req \<noteq> []" by (rule prompt_chain_missing)
  then show "prompt_validators req \<noteq> []" and "prompt_and_wait_validators req \<noteq> []"
    by (simp_all add: prompt_validators_def prompt_and_wait_validators_def)
next
  assume "\<not> proxy_token_mismatch token req \<and> (\<not> truthy (prompt req) \<or> \<not> is_string (prompt req))"
  then show "bankr_prompt token client req =
        (res_status_json 400 (plain_error ''prompt is required''), [])"
    and "bankr_promptAndWait token client req =
        (res_status_json 400 (plain_error ''prompt is required''), [])"
    by (auto simp add: bankr_prompt_def bankr_promptAndWait_def)
qed

theorem validation_before_submission_witness:
  "prompt blank_request = JUndefined \<and>
   prompt_validators blank_request \<noteq> [] \<and>
   status (fst (behind_limiter False ''t0'' (api_prompt returning_client ''t'' blank_request)))
     = 400 \<and>
   error_code (body (fst (behind_limiter False ''t0''
     (api_prompt returning_client ''t'' blank_request)))) = JStr ''VALIDATION_ERROR'' \<and>
   snd (behind_limiter False ''t0'' (api_prompt returning_client ''t'' blank_request)) = [] \<and>
   snd (behind_limiter False ''t0'' (api_prompt_and_wait returning_client ''t'' blank_request))
     = [] \<and>
   status (fst (behind_limiter True ''t0'' (api_prompt returning_client ''t'' blank_request)))
     = 429 \<and>
   snd (behind_limiter False ''t0'' (api_prompt returning_client ''t'' hi_request)) \<noteq> [] \<and>
   prompt_validators hi_request = [] \<and>
   bankr_prompt None returning_client blank_request =
     (res_status_json 400 (plain_error ''prompt is required''), [])"
proof -
  have u: "prompt blank_request = JUndefined" by (rule blank_invalid)
  have m: "\<not> proxy_token_mismatch None blank_request \<and>
           (\<not> truthy (prompt blank_request) \<or> \<not> is_string (prompt blank_request))"
    by (simp add: proxy_token_mismatch_def blank_invalid)
  have c: "snd (behind_limiter False ''t0'' (api_prompt returning_client ''t'' hi_request)) \<noteq> []"
    by (simp add: behind_limiter_within api_prompt_def handleValidationErrors_def hi_valid
          returning_client_def Let_def)
  note t = validation_before_submission [where req = blank_request
      and client = returning_client and now = "''t''" and token = None
      and over_limit = False and started = "''t0''"]
  note o = validation_before_submission [where req = blank_request
      and client = returning_client and now = "''t''" and over_limit = True
      and started = "''t0''"]
  note h = validation_before_submission [where req = hi_request
      and client = returning_client and now = "''t''" and over_limit = False
      and started = "''t0''"]
  from t u have v: "prompt_validators blank_request \<noteq> []"
    and w: "prompt_and_wait_validators blank_request \<noteq> []"
    by blast+
  from t v have "status (fst (behind_limiter False ''t0''
       (api_prompt returning_client ''t'' blank_request))) = 400"
    and "error_code (body (fst (behind_limiter False ''t0''
       (api_prompt returning_client ''t'' blank_request)))) = JStr ''VALIDATION_ERROR''"
    and "snd (behind_limiter False ''t0'' (api_prompt returning_client ''t'' blank_request)) = []"
    by blast+
  moreover from t w
  have "snd (behind_limiter False ''t0''
          (api_prompt_and_wait returning_client ''t'' blank_request)) = []"
    by blast
  moreover from o have "status (fst (behind_limiter True ''t0''
       (api_prompt returning_client ''t'' blank_request))) = 429"
    by blast
  moreover from h c have "prompt_validators hi_request = []" by blast
  moreover from t m have "bankr_prompt None returning_client blank_request =
     (res_status_json 400 (plain_error ''prompt is required''), [])"
    by blast
  ultimately show ?thesis using u v c by blast
qed

subsection \<open>C7: the spender\<close>

text \<open>
  Claim C7 says that the spender of an approval is never chosen by the caller.  In the
  first proxy file \<open>POST /api/bankr/approve\<close> takes \<open>spender\<close> from the request body
  and approves whatever address it names.
\<close>

theorem caller_chooses_spender:
  "snd (bankr_approve sample_BigInt None returning_client
          (blank_request\<lparr>spender := JStr ''0x000000000000000000000000000000000000dEaD''\<rparr>))
     = [CApprove (JStr ''0x000000000000000000000000000000000000dEaD'') (AmountVal JUndefined)] \<and>
   ''0x000000000000000000000000000000000000dEaD'' \<noteq> facilitatorAddress"
  by (simp add: bankr_approve_def bankr_approve_amount_def proxy_token_mismatch_def
        returning_client_def blank_request_def facilitatorAddress_def)

text \<open>
  Claim C7, amended.  Every allowance query and every approval made by server.js (the
  health, allowance and approve routes) and by \<open>POST /api/bankr/approve-bnkr\<close> is about
  the fixed facilitator address \<open>0x4a15fc613c713FC52E907a77071Ec2d0a392a584\<close>; the
  approval made by \<open>POST /api/bankr/approve\<close> is about the \<open>spender\<close> of the request
  body; the remaining routes make neither call.
\<close>

theorem fixed_facilitator:
  "(\<forall>c \<in> set (snd (api_health client now up)). call_spender c = Some (JStr facilitatorAddress)) \<and>
   (\<forall>c \<in> set (snd (api_allowance client now)). call_spender c = Some (JStr facilitatorAddress)) \<and>
   (\<forall>c \<in> set (snd (api_approve client now req)). call_spender c = Some (JStr facilitatorAddress)) \<and>
   (\<forall>c \<in> set (snd (bankr_approve_bnkr token client req)).
      call_spender c = Some (JStr facilitatorAddress)) \<and>
   (\<forall>c \<in> set (snd (bankr_approve BigInt token client req)). call_spender c = Some (spender req)) \<and>
   (\<forall>c \<in> set (snd (api_prompt client now req)). call_spender c = None) \<and>
   (\<forall>c \<in> set (snd (api_job client now req)). call_spender c = None) \<and>
   (\<forall>c \<in> set (snd (api_prompt_and_wait client now req)). call_spender c = None) \<and>
   (\<forall>c \<in> set (snd (bankr_prompt token client req)). call_spender c = None) \<and>
   (\<forall>c \<in> set (snd (bankr_promptAndWait token client req)). call_spender c = None)"
proof (intro conjI)
  show "\<forall>c \<in> set (snd (api_health client now up)). call_spender c = Some (JStr facilitatorAddress)"
    by (cases rule: api_health_cases [of client now up]) simp_all
  show "\<forall>c \<in> set (snd (api_allowance client now)). call_spender c = Some (JStr facilitatorAddress)"
    by (cases rule: api_allowance_cases [of client now]) simp_all
  show "\<forall>c \<in> set (snd (api_approve client now req)). call_spender c = Some (JStr facilitatorAddress)"
    by (cases rule: api_approve_cases [of now req client]) simp_all
  show "\<forall>c \<in> set (snd (bankr_approve_bnkr token client req)).
          call_spender c = Some (JStr facilitatorAddress)"
    by (cases rule: bankr_approve_bnkr_cases [of token req client]) simp_all
  show "\<forall>c \<in> set (snd (bankr_approve BigInt token client req)). call_spender c = Some (spender req)"
    by (cases rule: bankr_approve_cases [of token req BigInt client]) simp_all
  show "\<forall>c \<in> set (snd (api_prompt client now req)). call_spender c = None"
    by (cases rule: api_prompt_cases [of now req client]) simp_all
  show "\<forall>c \<in> set (snd (api_job client now req)). call_spender c = None"
    by (cases rule: api_job_cases [of now req client]) simp_all
  show "\<forall>c \<in> set (snd (api_prompt_and_wait client now req)). call_spender c = None"
    by (cases rule: api_prompt_and_wait_cases [of now req client]) simp_all
  show "\<forall>c \<in> set (snd (bankr_prompt token client req)). call_spender c = None"
    by (cases rule: bankr_prompt_cases [of token req client]) simp_all
  show "\<forall>c \<in> set (snd (bankr_promptAndWait token client req)). call_spender c = None"
    by (cases rule: bankr_promptAndWait_cases [of token req client]) simp_all
qed

theorem fixed_facilitator_witness:
  "CApprove (JStr facilitatorAddress) (AmountVal (JStr max_uint256_string))
     \<in> set (snd (api_approve returning_client ''t'' blank_request)) \<and>
   call_spender (CApprove (JStr facilitatorAddress) (AmountVal (JStr max_uint256_string)))
     = Some (JStr facilitatorAddress) \<and>
   CCheckAllowance facilitatorAddress \<in> set (snd (api_allowance returning_client ''t'')) \<and>
   call_spender (CCheckAllowance facilitatorAddress) = Some (JStr facilitatorAddress)"
proof -
  have a: "CApprove (JStr facilitatorAddress) (AmountVal (JStr max_uint256_string))
             \<in> set (snd (api_approve returning_client ''t'' blank_request))"
    by (simp add: api_approve_def handleValidationErrors_def approve_validators_def
          amount_chain_def optional_def approve_amount_def or_else_def blank_invalid
          returning_client_def Let_def)
  have b: "CCheckAllowance facilitatorAddress \<in> set (snd (api_allowance returning_client ''t''))"
    by (simp add: api_allowance_def returning_client_def)
  note t = fixed_facilitator [where client = returning_client and now = "''t''"
      and req = blank_request]
  from t a have "call_spender (CApprove (JStr facilitatorAddress)
                   (AmountVal (JStr max_uint256_string))) = Some (JStr facilitatorAddress)"
    by blast
  moreover from t b
  have "call_spender (CCheckAllowance facilitatorAddress) = Some (JStr facilitatorAddress)"
    by blast
  ultimately show ?thesis using a b by blast
qed

subsection \<open>C8: the shape of an error body\<close>

text \<open>
  Claim C8 says that every error response of every route has the body
  \<open>{ success: false, error: { code, message, details? }, timestamp }\<close>.  The catch
  branch of the proxy routes answers \<open>{ error: message }\<close>, and the health route of
  server.js answers a failed probe with a status report; neither has that shape.
\<close>

theorem other_error_bodies:
  "status (fst (bankr_prompt None (throwing_client ''boom'') hi_request)) = 500 \<and>
   body (fst (bankr_prompt None (throwing_client ''boom'') hi_request)) = plain_error ''boom'' \<and>
   \<not> error_shape (body (fst (bankr_prompt None (throwing_client ''boom'') hi_request))) \<and>
   status (fst (api_health (throwing_client ''boom'') ''t'' (JNum 1))) = 503 \<and>
   \<not> error_shape (body (fst (api_health (throwing_client ''boom'') ''t'' (JNum 1))))"
proof -
  have p: "bankr_prompt None (throwing_client ''boom'') hi_request =
             (bankr_catch (JsError ''boom''), [CPromptAndWait (bankr_prompt_args hi_request)])"
    by (simp add: bankr_prompt_def proxy_token_mismatch_def throwing_client_def Let_def)
       (simp add: hi_request_def blank_request_def)
  have h: "api_health (throwing_client ''boom'') ''t'' (JNum 1) =
             (api_health_catch ''t'' (JNum 1) (JsError ''boom''),
              [CCheckAllowance facilitatorAddress])"
    by (simp add: api_health_def throwing_client_def)
  have "\<not> error_shape (body (api_health_catch ''t'' (JNum 1) (JsError ''boom'')))"
    by (simp add: api_health_catch_def body_res_status_json error_shape_def)
  moreover have "status (api_health_catch ''t'' (JNum 1) (JsError ''boom'')) = 503"
    by (simp add: api_health_catch_def status_res_status_json)
  ultimately show ?thesis
    unfolding p h
    by (simp add: bankr_catch_def status_res_status_json body_res_status_json
          not_error_shape_plain)
qed

text \<open>
  Claim C8, amended.  Every response of a business route of server.js that is not a
  200, and every response of its 404 handler, of its global error handler and of its
  rate limiter, has the body
  \<open>{ success: false, error: { code, message, details }, timestamp }\<close>.  The health
  route and the proxy files answer errors in other shapes.
\<close>

theorem server_error_envelope:
  "(status (fst (api_prompt client now req)) \<noteq> 200 \<longrightarrow>
      error_shape (body (fst (api_prompt client now req)))) \<and>
   (status (fst (api_job client now req)) \<noteq> 200 \<longrightarrow>
      error_shape (body (fst (api_job client now req)))) \<and>
   (status (fst (api_prompt_and_wait client now req)) \<noteq> 200 \<longrightarrow>
      error_shape (body (fst (api_prompt_and_wait client now req)))) \<and>
   (status (fst (api_allowance client now)) \<noteq> 200 \<longrightarrow>
      error_shape (body (fst (api_allowance client now)))) \<and>
   (status (fst (api_approve client now req)) \<noteq> 200 \<longrightarrow>
      error_shape (body (fst (api_approve client now req)))) \<and>
   error_shape (body (not_found_handler now req)) \<and>
   error_shape (body (global_error_handler node_env now e)) \<and>
   error_shape (rate_limit_message started)"
proof (intro conjI impI)
  assume "status (fst (api_prompt client now req)) \<noteq> 200"
  then show "error_shape (body (fst (api_prompt client now req)))"
    by (cases rule: api_prompt_cases [of now req client])
       (simp_all add: shape_validation shape_catch status_res_json)
next
  assume "status (fst (api_job client now req)) \<noteq> 200"
  then show "error_shape (body (fst (api_job client now req)))"
    by (cases rule: api_job_cases [of now req client])
       (simp_all add: shape_validation shape_catch status_res_json)
next
  assume "status (fst (api_prompt_and_wait client now req)) \<noteq> 200"
  then show "error_shape (body (fst (api_prompt_and_wait client now req)))"
    by (cases rule: api_prompt_and_wait_cases [of now req client])
       (simp_all add: shape_validation shape_catch status_res_json)
next
  assume "status (fst (api_allowance client now)) \<noteq> 200"
  then show "error_shape (body (fst (api_allowance client now)))"
    by (cases rule: api_allowance_cases [of client now])
       (simp_all add: shape_catch status_res_json)
next
  assume "status (fst (api_approve client now req)) \<noteq> 200"
  then show "error_shape (body (fst (api_approve client now req)))"
    by (cases rule: api_approve_cases [of now req client])
       (simp_all add: shape_validation shape_catch status_res_json)
next
  show "error_shape (body (not_found_handler now req))"
    by (simp add: not_found_handler_def body_res_status_json error_shape_format)
next
  show "error_shape (body (global_error_handler node_env now e))"
    by (simp add: global_error_handler_def body_res_status_json error_shape_format)
next
  show "error_shape (rate_limit_message started)"
    by (auto simp add: rate_limit_message_def error_shape_def is_json_string_def)
qed

theorem server_error_envelope_witness:
  "status (fst (api_prompt (throwing_client ''boom'') ''t'' hi_request)) \<noteq> 200 \<and>
   error_shape (body (fst (api_prompt (throwing_client ''boom'') ''t'' hi_request)))"
proof -
  have s: "status (fst (api_prompt (throwing_client ''boom'') ''t'' hi_request)) \<noteq> 200"
    by (simp add: boom_prompt boom_prompt_catch)
  from server_error_envelope [where client = "throwing_client ''boom''" and now = "''t''"
      and req = hi_request]
  have "status (fst (api_prompt (throwing_client ''boom'') ''t'' hi_request)) \<noteq> 200 \<longrightarrow>
        error_shape (body (fst (api_prompt (throwing_client ''boom'') ''t'' hi_request)))"
    by blast
  with s show ?thesis by simp
qed

subsection \<open>C9: the timeout check comes before the payment check\<close>

text \<open>
  Claim C9.  In the error handling of \<open>POST /api/prompt-and-wait\<close> the timeout check
  takes precedence over the payment check: when the request is valid and
  \<open>promptAndWait\<close> throws an error whose message contains both \<open>timeout\<close> and \<open>402\<close>,
  the route answers 408 with code \<open>REQUEST_TIMEOUT\<close>, not 402.
\<close>

theorem timeout_precedes_payment:
  assumes "prompt_and_wait_validators req = []"
      and "c_promptAndWait client (prompt_and_wait_args req) = Inl error"
      and "str_includes (message error) ''timeout''"
      and "str_includes (message error) ''402''"
  shows "status (fst (api_prompt_and_wait client now req)) = 408 \<and>
         error_code (body (fst (api_prompt_and_wait client now req))) = JStr ''REQUEST_TIMEOUT''"
  using assms
  by (simp add: api_prompt_and_wait_def handleValidationErrors_def Let_def
        api_prompt_and_wait_catch_def status_res_status_json body_res_status_json
        error_code_format)

theorem timeout_precedes_payment_witness:
  "prompt_and_wait_validators hi_request = [] \<and>
   str_includes ''Request timeout (402)'' ''timeout'' \<and>
   str_includes ''Request timeout (402)'' ''402'' \<and>
   status (fst (api_prompt_and_wait (throwing_client ''Request timeout (402)'') ''t''
                  hi_request)) = 408 \<and>
   error_code (body (fst (api_prompt_and_wait (throwing_client ''Request timeout (402)'') ''t''
                  hi_request))) = JStr ''REQUEST_TIMEOUT''"
proof -
  have v: "prompt_and_wait_validators hi_request = []"
    by (rule hi_valid)
  have c: "c_promptAndWait (throwing_client ''Request timeout (402)'')
             (prompt_and_wait_args hi_request) = Inl (JsError ''Request timeout (402)'')"
    by (simp add: throwing_client_def)
  have t: "str_includes (message (JsError ''Request timeout (402)'')) ''timeout''" by simp
  have p: "str_includes (message (JsError ''Request timeout (402)'')) ''402''" by simp
  from timeout_precedes_payment [OF v c t p, of "''t''"] v t p show ?thesis by simp
qed

subsection \<open>C10: startup needs the credentials\<close>

text \<open>
  Claim C10.  A server file does not reach \<open>app.listen\<close> without its credentials.
  When \<open>BANKR_API_KEY\<close>, \<open>PRIVATE_KEY\<close> or \<open>WALLET_ADDRESS\<close> is unset or empty,
  server.js exits with status 1; when \<open>BANKR_API_KEY\<close> or \<open>BANKR_PRIVATE_KEY\<close> is
  unset or empty, each proxy file throws its error while loading.  Neither depends on
  what the client's constructor would do.
\<close>

theorem startup_needs_credentials:
  "(env_missing env ''BANKR_API_KEY'' \<or> env_missing env ''PRIVATE_KEY'' \<or>
    env_missing env ''WALLET_ADDRESS'' \<longrightarrow> server_startup new_client env = Exited 1) \<and>
   (env_missing env ''BANKR_API_KEY'' \<or> env_missing env ''BANKR_PRIVATE_KEY'' \<longrightarrow>
      bankr_prompt_startup new_client env =
        Threw ''BANKR_API_KEY and BANKR_PRIVATE_KEY are required'' \<and>
      bankr_promptAndWait_startup new_client env =
        Threw ''Missing BANKR_API_KEY or BANKR_PRIVATE_KEY'')"
  by (auto simp add: server_startup_def missingEnvVars_def requiredEnvVars_def
        bankr_prompt_startup_def bankr_promptAndWait_startup_def proxy_startup_def)

theorem startup_needs_credentials_witness:
  "env_missing Map.empty ''BANKR_API_KEY'' \<and>
   server_startup sample_new_client Map.empty = Exited 1 \<and>
   bankr_prompt_startup sample_new_client Map.empty =
     Threw ''BANKR_API_KEY and BANKR_PRIVATE_KEY are required'' \<and>
   bankr_promptAndWait_startup sample_new_client Map.empty =
     Threw ''Missing BANKR_API_KEY or BANKR_PRIVATE_KEY''"
proof -
  have m: "env_missing Map.empty ''BANKR_API_KEY''" by (simp add: env_missing_def)
  note t = startup_needs_credentials [where env = Map.empty and new_client = sample_new_client]
  from t m have "server_startup sample_new_client Map.empty = Exited 1" by blast
  moreover from t m have "bankr_prompt_startup sample_new_client Map.empty =
     Threw ''BANKR_API_KEY and BANKR_PRIVATE_KEY are required''"
    and "bankr_promptAndWait_startup sample_new_client Map.empty =
     Threw ''Missing BANKR_API_KEY or BANKR_PRIVATE_KEY''"
    by blast+
  ultimately show ?thesis using m by blast
qed

end
